theory Spec2Isabelle
  imports Main "HOL-Library.AList" "HOL-Library.Word"
begin

section \<open>The FameEX API client: values of the runtime\<close>

text \<open>
  The module \<^verbatim>\<open>trade/api/fameex_api.js\<close> is a closure over three variables
  (\<^verbatim>\<open>WEB_BASE\<close>, \<^verbatim>\<open>config\<close>, \<^verbatim>\<open>log\<close>) with a response classifier
  (\<^verbatim>\<open>handleResponse\<close>), a signer (\<^verbatim>\<open>getSignature\<close>), two dispatchers and
  \<^verbatim>\<open>setConfig\<close>. The bodies the classifier looks at are whatever the HTTP layer parsed
  from the wire, so they are modelled as JavaScript values of JSON shape.

  \<^item> Numbers are the safe integers (magnitude at most \<open>2^53 - 1\<close>), as \<open>int\<close>; the
    runtime writes these, and only these, digit by digit in decimal.
  \<^item> Strings are \<open>char\<close> lists.
  \<^item> An object is the list of its own enumerable properties in enumeration order, with
    distinct keys. An array carries its elements and, separately, its own named
    (non-index) properties: the classifier can add one to an array body.
\<close>

datatype jsval =
    JUndefined
  | JNull
  | JBool bool
  | JNum int
  | JStr string
  | JArr "jsval list" "(string \<times> jsval) list"
  | JObj "(string \<times> jsval) list"

text \<open>An exception travelling through the code; all of them here are \<^verbatim>\<open>TypeError\<close>s,
  carrying the message of the V8 engine.\<close>

datatype exn = TypeError string

definition String_exn :: "exn \<Rightarrow> string" where
  "String_exn e = (case e of TypeError m \<Rightarrow> ''TypeError: '' @ m)"

definition nullish :: "jsval \<Rightarrow> bool" where
  "nullish v = (v = JUndefined \<or> v = JNull)"

text \<open>\<^verbatim>\<open>a ?? b\<close>\<close>

definition coalesce :: "jsval \<Rightarrow> jsval \<Rightarrow> jsval" where
  "coalesce a b = (if nullish a then b else a)"

text \<open>
  Reading a property of a value that is neither \<^verbatim>\<open>null\<close> nor \<^verbatim>\<open>undefined\<close>. The
  code reads \<^verbatim>\<open>code\<close>, \<^verbatim>\<open>msg\<close> and \<^verbatim>\<open>data\<close> only, names that no prototype
  defines, so the own properties decide; a string, number or boolean has none of them.
\<close>

fun get_field :: "jsval \<Rightarrow> string \<Rightarrow> jsval" where
  "get_field (JObj ps) k = (case map_of ps k of Some x \<Rightarrow> x | None \<Rightarrow> JUndefined)"
| "get_field (JArr es ps) k = (case map_of ps k of Some x \<Rightarrow> x | None \<Rightarrow> JUndefined)"
| "get_field v k = JUndefined"

text \<open>\<^verbatim>\<open>v?.k\<close>\<close>

definition opt_field :: "jsval \<Rightarrow> string \<Rightarrow> jsval" where
  "opt_field v k = (if nullish v then JUndefined else get_field v k)"

text \<open>\<^verbatim>\<open>v.k\<close>, which throws on \<^verbatim>\<open>null\<close> and \<^verbatim>\<open>undefined\<close>\<close>

definition read_field :: "jsval \<Rightarrow> string \<Rightarrow> exn + jsval" where
  "read_field v k =
     (if v = JUndefined then
        Inl (TypeError (''Cannot read properties of undefined (reading '' @ [CHR 39] @ k @ [CHR 39] @ '')''))
      else if v = JNull then
        Inl (TypeError (''Cannot read properties of null (reading '' @ [CHR 39] @ k @ [CHR 39] @ '')''))
      else Inr (get_field v k))"

text \<open>\<^verbatim>\<open>typeof v === 'object'\<close>: true of \<^verbatim>\<open>null\<close> as well.\<close>

fun typeof_object :: "jsval \<Rightarrow> bool" where
  "typeof_object JNull = True"
| "typeof_object (JArr es ps) = True"
| "typeof_object (JObj ps) = True"
| "typeof_object v = False"

subsection \<open>Numbers and strings\<close>

function nat_digits :: "nat \<Rightarrow> string" where
  "nat_digits n =
     (if n < 10 then [''0123456789'' ! n]
      else nat_digits (n div 10) @ [''0123456789'' ! (n mod 10)])"
  by pat_completeness auto
termination
  by (relation "measure (\<lambda>n. n)") auto

declare nat_digits.simps [simp del]

text \<open>
  The string of a number, for a safe integer: its decimal digits, with a minus sign
  when it is negative. Larger numbers are written otherwise by the runtime (rounded to
  17 digits, in exponent notation from \<open>10^21\<close> on), so a statement about the text of a
  number is made for numbers in the safe range.
\<close>

definition Number_toString :: "int \<Rightarrow> string" where
  "Number_toString i = (if i < 0 then ''-'' @ nat_digits (nat (- i)) else nat_digits (nat i))"

text \<open>
  \<^verbatim>\<open>String(v)\<close>, also what a template literal and a computed property key do to a value.
  An object is rendered by \<^verbatim>\<open>Object.prototype.toString\<close> unless it has a property
  \<^verbatim>\<open>toString\<close> of its own: a JSON value is never callable, so the conversion then finds
  no method that yields a primitive and throws. An array joins its elements with commas,
  \<^verbatim>\<open>null\<close> and \<^verbatim>\<open>undefined\<close> elements giving the empty string.
\<close>

definition cannot_convert :: exn where
  "cannot_convert = TypeError ''Cannot convert object to primitive value''"

fun ToString :: "jsval \<Rightarrow> exn + string"
  and join_elems :: "jsval list \<Rightarrow> exn + string"
where
  "ToString JUndefined = Inr ''undefined''"
| "ToString JNull = Inr ''null''"
| "ToString (JBool b) = Inr (if b then ''true'' else ''false'')"
| "ToString (JNum i) = Inr (Number_toString i)"
| "ToString (JStr s) = Inr s"
| "ToString (JArr es ps) =
     (if ''toString'' \<in> set (map fst ps) then Inl cannot_convert
      else if ''join'' \<in> set (map fst ps) then Inr ''[object Array]''
      else join_elems es)"
| "ToString (JObj ps) =
     (if ''toString'' \<in> set (map fst ps) then Inl cannot_convert
      else Inr ''[object Object]'')"
| "join_elems [] = Inr ''''"
| "join_elems (e # es) =
     (case (if e = JUndefined \<or> e = JNull then Inr '''' else ToString e) of
        Inl x \<Rightarrow> Inl x
      | Inr s \<Rightarrow>
          (if es = [] then Inr s
           else case join_elems es of Inl x \<Rightarrow> Inl x | Inr t \<Rightarrow> Inr (s @ '','' @ t)))"

subsection \<open>\<^verbatim>\<open>JSON.stringify\<close>\<close>

definition hexdigit :: "nat \<Rightarrow> char" where
  "hexdigit n = ''0123456789abcdef'' ! n"

definition json_escape :: "char \<Rightarrow> string" where
  "json_escape c =
     (if c = CHR 34 then [CHR 92, CHR 34]
      else if c = CHR 92 then [CHR 92, CHR 92]
      else if c = CHR 8 then [CHR 92, CHR ''b'']
      else if c = CHR 12 then [CHR 92, CHR ''f'']
      else if c = CHR 10 then [CHR 92, CHR ''n'']
      else if c = CHR 13 then [CHR 92, CHR ''r'']
      else if c = CHR 9 then [CHR 92, CHR ''t'']
      else if (of_char c :: nat) < 32 then
        [CHR 92, CHR ''u'', CHR ''0'', CHR ''0'',
         hexdigit (of_char c div 16), hexdigit (of_char c mod 16)]
      else [c])"

definition json_quote :: "string \<Rightarrow> string" where
  "json_quote s = [CHR 34] @ concat (map json_escape s) @ [CHR 34]"

fun commas :: "string list \<Rightarrow> string" where
  "commas [] = ''''"
| "commas [s] = s"
| "commas (s # ss) = s @ '','' @ commas ss"

text \<open>
  \<^verbatim>\<open>JSON.stringify(v)\<close>; \<open>None\<close> is the result \<^verbatim>\<open>undefined\<close>. An undefined array element
  is written \<^verbatim>\<open>null\<close>, an undefined property is left out, the named properties of an array
  are not written.
\<close>

fun JSON_stringify :: "jsval \<Rightarrow> string option"
  and stringify_elems :: "jsval list \<Rightarrow> string list"
  and stringify_props :: "(string \<times> jsval) list \<Rightarrow> string list"
where
  "JSON_stringify JUndefined = None"
| "JSON_stringify JNull = Some ''null''"
| "JSON_stringify (JBool b) = Some (if b then ''true'' else ''false'')"
| "JSON_stringify (JNum i) = Some (Number_toString i)"
| "JSON_stringify (JStr s) = Some (json_quote s)"
| "JSON_stringify (JArr es ps) = Some (''['' @ commas (stringify_elems es) @ '']'')"
| "JSON_stringify (JObj ps) = Some (''{'' @ commas (stringify_props ps) @ ''}'')"
| "stringify_elems [] = []"
| "stringify_elems (e # es) =
     (case JSON_stringify e of None \<Rightarrow> ''null'' | Some s \<Rightarrow> s) # stringify_elems es"
| "stringify_props [] = []"
| "stringify_props (p # ps) =
     (case JSON_stringify (snd p) of
        None \<Rightarrow> stringify_props ps
      | Some s \<Rightarrow> (json_quote (fst p) @ '':'' @ s) # stringify_props ps)"

text \<open>How \<^verbatim>\<open>undefined\<close> comes out of a template literal or a string concatenation.\<close>

definition render :: "string option \<Rightarrow> string" where
  "render s = (case s of None \<Rightarrow> ''undefined'' | Some t \<Rightarrow> t)"

section \<open>Module state and \<^verbatim>\<open>setConfig\<close>\<close>

record credentials =
  apiKey :: string
  secret_key :: string
  tradePwd :: string

text \<open>
  The logger object, as far as the module uses it: whether it has a callable \<^verbatim>\<open>log\<close>
  and a callable \<^verbatim>\<open>warn\<close>. The module starts with \<^verbatim>\<open>log = {}\<close>, which has neither.
\<close>

record logger =
  has_log :: bool
  has_warn :: bool

record module_state =
  WEB_BASE :: string
  config :: credentials
  log :: logger

definition initial_state :: module_state where
  "initial_state =
     \<lparr> WEB_BASE = ''https://api.fameex.com'',
       config = \<lparr> apiKey = '''', secret_key = '''', tradePwd = '''' \<rparr>,
       log = \<lparr> has_log = False, has_warn = False \<rparr> \<rparr>"

text \<open>
  \<^verbatim>\<open>setConfig(apiServer, apiKey, secretKey, tradePwd, logger, publicOnly = false)\<close>.
  An argument that was not passed is \<open>None\<close>; \<^verbatim>\<open>if (apiServer)\<close> is also false of the
  empty string. The credentials are stored as passed.
\<close>

definition setConfig ::
  "string option \<Rightarrow> string \<Rightarrow> string \<Rightarrow> string \<Rightarrow> logger option \<Rightarrow> bool option
     \<Rightarrow> module_state \<Rightarrow> module_state" where
  "setConfig apiServer apiKey' secretKey tradePwd' logger' publicOnly st =
     (let publicOnly' = (case publicOnly of None \<Rightarrow> False | Some b \<Rightarrow> b);
          st1 = (case apiServer of
                   Some s \<Rightarrow> if s \<noteq> '''' then st\<lparr> WEB_BASE := s \<rparr> else st
                 | None \<Rightarrow> st);
          st2 = (case logger' of Some l \<Rightarrow> st1\<lparr> log := l \<rparr> | None \<Rightarrow> st1)
      in if \<not> publicOnly' then
           st2\<lparr> config := \<lparr> apiKey = apiKey', secret_key = secretKey, tradePwd = tradePwd' \<rparr> \<rparr>
         else st2)"

section \<open>The response classifier\<close>

subsection \<open>The table of error codes\<close>

definition httpErrorCodeDescriptions :: "(string \<times> string) list" where
  "httpErrorCodeDescriptions =
     [(''112002'', ''API single key traffic exceeds limit''),
      (''112005'', ''API request frequency exceeded''),
      (''112007'', ''API-Key creation failed''),
      (''112008'', ''API-Key remark name already exists''),
      (''112009'', ''The number of API-Key creation exceeds the limit (a single user can create up to 5 APIs)''),
      (''112010'', ''API-Key is invalid (the time limit for a single Key is 60 natural days)''),
      (''112011'', ''API request IP access is restricted (the bound IP is inconsistent with the request IP)''),
      (''112015'', ''Signature error''),
      (''112020'', ''Wrong signature''),
      (''112021'', ''Wrong signature version''),
      (''112022'', ''Signature timestamp error''),
      (''112047'', ''The spot API interface is temporarily inaccessible''),
      (''112048'', ''The futures API interface is temporarily inaccessible''),
      (''230030'', ''Please operate after KYC certification'')]"

text \<open>
  The table is an object literal, so a lookup that misses its own keys goes on to
  \<^verbatim>\<open>Object.prototype\<close>, whose members are functions (and, under \<^verbatim>\<open>__proto__\<close>, the
  prototype object itself): values that are there, but are no strings.
\<close>

definition Object_prototype_members :: "string list" where
  "Object_prototype_members =
     [''constructor'', ''__defineGetter__'', ''__defineSetter__'', ''hasOwnProperty'',
      ''__lookupGetter__'', ''__lookupSetter__'', ''isPrototypeOf'', ''propertyIsEnumerable'',
      ''toString'', ''valueOf'', ''__proto__'', ''toLocaleString'']"

text \<open>The message of the normalised error: a value of the body or of the table, or a
  member of \<^verbatim>\<open>Object.prototype\<close> that the lookup ran into, by name.\<close>

datatype msgval = Val jsval | Inherited string

text \<open>\<^verbatim>\<open>httpErrorCodeDescriptions[key]\<close>; \<open>None\<close> is \<^verbatim>\<open>undefined\<close>.\<close>

definition table_get :: "string \<Rightarrow> msgval option" where
  "table_get key =
     (case map_of httpErrorCodeDescriptions key of
        Some d \<Rightarrow> Some (Val (JStr d))
      | None \<Rightarrow> if key \<in> set Object_prototype_members then Some (Inherited key) else None)"

definition String_msg :: "msgval \<Rightarrow> exn + string" where
  "String_msg m =
     (case m of
        Val v \<Rightarrow> ToString v
      | Inherited k \<Rightarrow>
          if k = ''__proto__'' then Inr ''[object Object]''
          else Inr (''function '' @ (if k = ''constructor'' then ''Object'' else k)
                    @ ''() { [native code] }''))"

text \<open>
  Modelled from the spec: \<^verbatim>\<open>trimAny\<close> of \<^verbatim>\<open>helpers/utils\<close>, which is not among the
  sources. \<^verbatim>\<open>trimAny(str, chars)\<close> strips from both ends of \<^verbatim>\<open>str\<close> the characters
  that occur in \<^verbatim>\<open>chars\<close> (``trimming stray spaces/periods from the message''). For a
  message that is not a string the model gives the empty string.
\<close>

definition trimAny :: "msgval \<Rightarrow> string \<Rightarrow> string" where
  "trimAny m chars =
     (case m of
        Val (JStr s) \<Rightarrow>
          rev (dropWhile (\<lambda>c. c \<in> set chars) (rev (dropWhile (\<lambda>c. c \<in> set chars) s)))
      | _ \<Rightarrow> [])"

subsection \<open>What the classifier is given\<close>

text \<open>
  The HTTP layer hands over either a response (\<^verbatim>\<open>status\<close>, \<^verbatim>\<open>statusText\<close>,
  \<^verbatim>\<open>data\<close>) or an error object, which has a name, a message and, when the server
  answered, the response under \<^verbatim>\<open>response\<close>; the error object itself has no
  \<^verbatim>\<open>status\<close>, \<^verbatim>\<open>statusText\<close> or \<^verbatim>\<open>data\<close>.
\<close>

record response =
  status :: int
  statusText :: string
  data :: jsval

record error_obj =
  err_name :: string
  err_message :: string
  err_response :: "response option"

datatype outcome = Response response | Failure error_obj

text \<open>\<^verbatim>\<open>responseOrError?.status ?? responseOrError?.response?.status\<close>\<close>

definition httpCode_of :: "outcome \<Rightarrow> int option" where
  "httpCode_of r = (case r of Response x \<Rightarrow> Some (status x)
                    | Failure e \<Rightarrow> map_option status (err_response e))"

definition httpMessage_of :: "outcome \<Rightarrow> string option" where
  "httpMessage_of r = (case r of Response x \<Rightarrow> Some (statusText x)
                       | Failure e \<Rightarrow> map_option statusText (err_response e))"

text \<open>\<^verbatim>\<open>responseOrError?.data ?? responseOrError?.response?.data\<close>: a response whose
  \<^verbatim>\<open>data\<close> is \<^verbatim>\<open>null\<close> has no \<^verbatim>\<open>response\<close> to fall back to and yields
  \<^verbatim>\<open>undefined\<close>.\<close>

definition data_of :: "outcome \<Rightarrow> jsval" where
  "data_of r = (case r of Response x \<Rightarrow> coalesce (data x) JUndefined
                | Failure e \<Rightarrow> (case err_response e of None \<Rightarrow> JUndefined | Some x \<Rightarrow> data x))"

text \<open>\<^verbatim>\<open>String(responseOrError)\<close>: \<^verbatim>\<open>Error.prototype.toString\<close> for an error.\<close>

definition String_outcome :: "outcome \<Rightarrow> string" where
  "String_outcome r =
     (case r of
        Response x \<Rightarrow> ''[object Object]''
      | Failure e \<Rightarrow>
          if err_name e = [] then err_message e
          else if err_message e = [] then err_name e
          else err_name e @ '': '' @ err_message e)"

subsection \<open>Effects\<close>

text \<open>What a call of the classifier does to the world, in order, and how it ends.\<close>

datatype event =
    ConsoleLog jsval
  | LogLog string
  | LogWarn string
  | Resolve jsval
  | Reject string

datatype completion = Returned | Threw exn

subsection \<open>\<^verbatim>\<open>handleResponse\<close>\<close>

text \<open>
  Line 64: \<^verbatim>\<open>httpCode === 200 && (data.code === 200 || data.code === '0')\<close>. The
  conjunction reads \<^verbatim>\<open>data.code\<close> only when the status is 200, and reads it without
  \<^verbatim>\<open>?.\<close>, before the \<^verbatim>\<open>try\<close>.
\<close>

definition success_of :: "int option \<Rightarrow> jsval \<Rightarrow> exn + bool" where
  "success_of httpCode d =
     (if httpCode = Some 200 then
        (case read_field d ''code'' of
           Inl e \<Rightarrow> Inl e
         | Inr c \<Rightarrow> Inr (c = JNum 200 \<or> c = JStr ''0''))
      else Inr False)"

text \<open>
  Lines 68 to 71, also before the \<^verbatim>\<open>try\<close>: the normalised error. The table is indexed
  with \<^verbatim>\<open>data?.code\<close>, which makes a property key, that is a string, of it.
\<close>

record norm_error =
  err_code :: jsval
  err_msg :: msgval

definition error_of :: "jsval \<Rightarrow> exn + norm_error" where
  "error_of d =
     (case ToString (opt_field d ''code'') of
        Inl e \<Rightarrow> Inl e
      | Inr key \<Rightarrow>
          Inr \<lparr> err_code = coalesce (opt_field d ''code'') (JStr ''No error code''),
                err_msg = (case table_get key of
                             Some m \<Rightarrow> m
                           | None \<Rightarrow> Val (coalesce (opt_field d ''msg'') (JStr ''Unknown error''))) \<rparr>)"

text \<open>\<^verbatim>\<open>data.fameexErrorInfo = fameexErrorInfo\<close>: an existing property keeps its place, a
  new one goes to the end. The code does it to values with \<^verbatim>\<open>typeof data === 'object'\<close>
  only.\<close>

fun set_fameexErrorInfo :: "jsval \<Rightarrow> string \<Rightarrow> exn + jsval" where
  "set_fameexErrorInfo (JObj ps) s = Inr (JObj (AList.update ''fameexErrorInfo'' (JStr s) ps))"
| "set_fameexErrorInfo (JArr es ps) s =
     Inr (JArr es (AList.update ''fameexErrorInfo'' (JStr s) ps))"
| "set_fameexErrorInfo JNull s =
     Inl (TypeError ''Cannot set properties of null (setting 'fameexErrorInfo')'')"
| "set_fameexErrorInfo JUndefined s =
     Inl (TypeError ''Cannot set properties of undefined (setting 'fameexErrorInfo')'')"
| "set_fameexErrorInfo v s = Inr v"

text \<open>The character U+2026 that ends two of the log lines, in UTF-8.\<close>

definition ellipsis :: string where
  "ellipsis = [CHR 226, CHR 128, CHR 166]"

text \<open>
  The body of the \<^verbatim>\<open>try\<close> (lines 76 to 95): the events it gets to, the body as it then
  is (line 84 may have written to it), and the exception it ends with, if any. A call of
  a logger method that is not there throws, after its argument has been evaluated.
\<close>

definition try_block ::
  "logger \<Rightarrow> outcome \<Rightarrow> bool \<Rightarrow> int option \<Rightarrow> string option \<Rightarrow> jsval \<Rightarrow> norm_error
     \<Rightarrow> string \<Rightarrow> string \<Rightarrow> event list \<times> jsval \<times> exn option" where
  "try_block lg responseOrError success httpCode httpMessage d error reqParameters url =
     (if success then ([Resolve (get_field d ''data'')], d, None)
      else
        case ToString (err_code error) of
          Inl e \<Rightarrow> ([], d, Some e)
        | Inr c \<Rightarrow>
            (let fameexErrorInfo = ''['' @ c @ ''] '' @ trimAny (err_msg error) '' .'';
                 errorMessage =
                   (case httpCode of
                      None \<Rightarrow> String_outcome responseOrError
                    | Some n \<Rightarrow>
                        if n \<noteq> 0 then
                          Number_toString n @ '' '' @ render httpMessage @ '', '' @ fameexErrorInfo
                        else String_outcome responseOrError)
             in case (if typeof_object d then set_fameexErrorInfo d fameexErrorInfo else Inr d) of
                  Inl e \<Rightarrow> ([], d, Some e)
                | Inr d' \<Rightarrow>
                    if httpCode = Some 200 then
                      (case String_msg (err_msg error) of
                         Inl e \<Rightarrow> ([], d', Some e)
                       | Inr m \<Rightarrow>
                           if has_log lg then
                             ([LogLog (''FameEX processed a request to '' @ url @ '' with data ''
                                       @ reqParameters @ '', but with error: '' @ m
                                       @ ''. Resolving'' @ ellipsis),
                               Resolve d'], d', None)
                           else ([], d', Some (TypeError ''log.log is not a function'')))
                    else if has_warn lg then
                      ([LogWarn (''Request to '' @ url @ '' with data '' @ reqParameters
                                 @ '' failed. details: '' @ errorMessage @ ''. Rejecting''
                                 @ ellipsis),
                        Reject errorMessage], d', None)
                    else ([], d', Some (TypeError ''log.warn is not a function''))))"

text \<open>
  \<^verbatim>\<open>handleResponse(responseOrError, resolve, reject, queryString, url)\<close> with the logger
  of the module: the events of the call and its completion. \<^verbatim>\<open>resolve\<close> and
  \<^verbatim>\<open>reject\<close> are the two functions of a promise; calling them is an event.
\<close>

definition handleResponse ::
  "logger \<Rightarrow> outcome \<Rightarrow> string \<Rightarrow> string \<Rightarrow> event list \<times> completion" where
  "handleResponse lg responseOrError queryString url =
     (let httpCode = httpCode_of responseOrError;
          httpMessage = httpMessage_of responseOrError;
          d = data_of responseOrError
      in case success_of httpCode d of
           Inl e \<Rightarrow> ([], Threw e)
         | Inr success \<Rightarrow>
             (case error_of d of
                Inl e \<Rightarrow> ([ConsoleLog d], Threw e)
              | Inr error \<Rightarrow>
                  (let reqParameters =
                         (if queryString \<noteq> [] then queryString else ''{ No parameters }'')
                   in case try_block lg responseOrError success httpCode httpMessage d error
                             reqParameters url of
                        (evs, d', None) \<Rightarrow> (ConsoleLog d # evs, Returned)
                      | (evs, d', Some e) \<Rightarrow>
                          if has_warn lg then
                            (ConsoleLog d # evs @
                               [LogWarn (''Error while processing response of request to '' @ url
                                         @ '' with data '' @ reqParameters @ '': '' @ String_exn e
                                         @ ''. Data object I've got: ''
                                         @ render (JSON_stringify d') @ ''.''),
                                Reject (''Unable to process data: '' @ render (JSON_stringify d')
                                        @ ''. '' @ String_exn e)],
                             Returned)
                          else (ConsoleLog d # evs, Threw (TypeError ''log.warn is not a function'')))))"

text \<open>
  Both dispatchers end in
  \<^verbatim>\<open>axios(httpOptions).then((response) => handleResponse(response, ...)).catch((error) => handleResponse(error, ...))\<close>:
  an exception that escapes the first handler arrives, as an error object, at the second.
\<close>

definition error_obj_of :: "exn \<Rightarrow> error_obj" where
  "error_obj_of e =
     (case e of TypeError m \<Rightarrow>
        \<lparr> err_name = ''TypeError'', err_message = m, err_response = None \<rparr>)"

definition then_catch ::
  "logger \<Rightarrow> outcome \<Rightarrow> string \<Rightarrow> string \<Rightarrow> event list \<times> completion" where
  "then_catch lg r queryString url =
     (case r of
        Failure x \<Rightarrow> handleResponse lg (Failure x) queryString url
      | Response x \<Rightarrow>
          (case handleResponse lg (Response x) queryString url of
             (evs, Returned) \<Rightarrow> (evs, Returned)
           | (evs, Threw e) \<Rightarrow>
               (case handleResponse lg (Failure (error_obj_of e)) queryString url of
                  (evs', c) \<Rightarrow> (evs @ evs', c))))"

section \<open>Signing and dispatch of private requests\<close>

text \<open>
  \<^verbatim>\<open>crypto.createHmac('sha256', key).update(text)\<close> is the runtime's; its digest, as
  bytes, is a parameter \<open>hmac\<close> of the model. \<^verbatim>\<open>.digest('hex')\<close> writes each byte as
  two hexadecimal digits.
\<close>

definition hex_byte :: "8 word \<Rightarrow> string" where
  "hex_byte w = [hexdigit (unat w div 16), hexdigit (unat w mod 16)]"

definition digest_hex :: "8 word list \<Rightarrow> string" where
  "digest_hex bs = concat (map hex_byte bs)"

text \<open>\<^verbatim>\<open>getSignature(secret, timestamp, method, requestPath, payload)\<close>; the payload may be
  \<^verbatim>\<open>undefined\<close>, which the concatenation spells out.\<close>

definition getSignature ::
  "(string \<Rightarrow> string \<Rightarrow> 8 word list) \<Rightarrow> string \<Rightarrow> int \<Rightarrow> string \<Rightarrow> string \<Rightarrow> string option
     \<Rightarrow> string" where
  "getSignature hmac secret timestamp method requestPath payload =
     digest_hex (hmac secret (Number_toString timestamp @ method @ requestPath @ render payload))"

text \<open>\<^verbatim>\<open>toUpperCase\<close> on the letters \<^verbatim>\<open>a\<close> to \<^verbatim>\<open>z\<close>; other ASCII characters stay.\<close>

definition upper_char :: "char \<Rightarrow> char" where
  "upper_char c =
     (if 97 \<le> (of_char c :: nat) \<and> (of_char c :: nat) \<le> 122
      then char_of ((of_char c :: nat) - 32) else c)"

definition toUpperCase :: "string \<Rightarrow> string" where
  "toUpperCase s = map upper_char s"

record headers =
  Content_Type :: string
  AccessKey :: string
  SecretKey :: string
  Timestamp :: int
  SignatureVersion :: string
  SignatureMethod :: string
  Signature :: string

text \<open>The options given to the HTTP layer; \<open>None\<close> in \<open>opt_data\<close> or \<open>opt_params\<close> is a
  property that was not set.\<close>

record httpOptions =
  opt_url :: string
  opt_method :: string
  opt_timeout :: int
  opt_headers :: headers
  opt_data :: "string option option"
  opt_params :: "jsval option"

text \<open>
  \<^verbatim>\<open>protectedRequest(type, path, data)\<close> up to the call of the HTTP layer: the options it
  builds, at the time \<open>timestamp\<close> that \<^verbatim>\<open>Date.now()\<close> gave. Its \<^verbatim>\<open>bodyString\<close>, made
  by the helper \<^verbatim>\<open>getParamsString\<close>, goes nowhere but into the log lines of the
  classifier, as its \<^verbatim>\<open>queryString\<close>.
\<close>

definition protectedRequest ::
  "(string \<Rightarrow> string \<Rightarrow> 8 word list) \<Rightarrow> module_state \<Rightarrow> int \<Rightarrow> string \<Rightarrow> string \<Rightarrow> jsval
     \<Rightarrow> httpOptions" where
  "protectedRequest hmac st timestamp type path d =
     (let url = WEB_BASE st @ path;
          stringifiedData = JSON_stringify d;
          signPayload = (if type = ''post'' then stringifiedData else Some []);
          method = toUpperCase type;
          sign = getSignature hmac (secret_key (config st)) timestamp method path signPayload;
          httpOptions =
            \<lparr> opt_url = url, opt_method = type, opt_timeout = 10000,
              opt_headers =
                \<lparr> Content_Type = ''application/json'',
                  AccessKey = apiKey (config st),
                  SecretKey = secret_key (config st),
                  Timestamp = timestamp,
                  SignatureVersion = ''v1.0'',
                  SignatureMethod = ''HmacSHA256'',
                  Signature = sign \<rparr>,
              opt_data = None, opt_params = None \<rparr>
      in if type = ''post'' then httpOptions\<lparr> opt_data := Some stringifiedData \<rparr>
         else httpOptions\<lparr> opt_params := Some d \<rparr>)"

section \<open>Notions used in the statements\<close>

text \<open>The number a string of decimal digits denotes.\<close>

definition digit_value :: "char \<Rightarrow> nat" where
  "digit_value c = of_char c - 48"

definition decimal_value :: "string \<Rightarrow> nat" where
  "decimal_value s = foldl (\<lambda>a c. 10 * a + digit_value c) 0 s"

text \<open>Reading hexadecimal text back: two digits out of \<^verbatim>\<open>0-9a-f\<close> make a byte, the high
  one first; any other text has no reading.\<close>

definition hex_value :: "char \<Rightarrow> nat option" where
  "hex_value c =
     (if 48 \<le> (of_char c :: nat) \<and> (of_char c :: nat) \<le> 57 then Some (of_char c - 48)
      else if 97 \<le> (of_char c :: nat) \<and> (of_char c :: nat) \<le> 102 then Some (of_char c - 87)
      else None)"

fun hex_decode :: "string \<Rightarrow> 8 word list option" where
  "hex_decode [] = Some []"
| "hex_decode [c] = None"
| "hex_decode (a # b # cs) =
     (case hex_value a of
        None \<Rightarrow> None
      | Some h \<Rightarrow>
          (case hex_value b of
             None \<Rightarrow> None
           | Some l \<Rightarrow>
               (case hex_decode cs of
                  None \<Rightarrow> None
                | Some ws \<Rightarrow> Some (of_nat (16 * h + l) # ws))))"

text \<open>How often a list of events calls \<^verbatim>\<open>resolve\<close> or \<^verbatim>\<open>reject\<close>.\<close>

fun settles :: "event \<Rightarrow> bool" where
  "settles (Resolve v) = True"
| "settles (Reject s) = True"
| "settles e = False"

definition settled :: "event list \<Rightarrow> nat" where
  "settled evs = length (filter settles evs)"

text \<open>The events that go to the logger of the module.\<close>

fun logger_line :: "event \<Rightarrow> bool" where
  "logger_line (LogLog s) = True"
| "logger_line (LogWarn s) = True"
| "logger_line e = False"

section \<open>The signer\<close>

lemma hexdigit_in: "n < 16 \<Longrightarrow> hexdigit n \<in> set ''0123456789abcdef''"
  unfolding hexdigit_def by (rule nth_mem) simp

lemma hex_byte_chars: "set (hex_byte w) \<subseteq> set ''0123456789abcdef''"
proof -
  have "unat w < 256" using unsigned_less [of w, where ?'a = nat] by simp
  then have a: "unat w div 16 < 16" by simp
  have b: "unat w mod 16 < 16" by simp
  show ?thesis unfolding hex_byte_def using hexdigit_in [OF a] hexdigit_in [OF b] by simp
qed

lemma digest_hex_chars: "set (digest_hex bs) \<subseteq> set ''0123456789abcdef''"
  unfolding digest_hex_def using hex_byte_chars by (induction bs) auto

lemma digit_value_nth: "n < 10 \<Longrightarrow> digit_value (''0123456789'' ! n) = n"
proof -
  assume "n < 10"
  then have "n \<in> {0,1,2,3,4,5,6,7,8,9}" by auto
  then show ?thesis unfolding digit_value_def by auto
qed

text \<open>The rendering of a number is its decimal notation: reading the digits back gives
  the number.\<close>

lemma decimal_value_nat_digits: "decimal_value (nat_digits n) = n"
proof (induction n rule: nat_digits.induct)
  case (1 n)
  show ?case
  proof (cases "n < 10")
    case True
    then show ?thesis
      by (subst nat_digits.simps) (simp add: decimal_value_def digit_value_nth)
  next
    case False
    with 1 have ih: "decimal_value (nat_digits (n div 10)) = n div 10" by simp
    have "decimal_value (nat_digits n)
            = 10 * decimal_value (nat_digits (n div 10))
              + digit_value (''0123456789'' ! (n mod 10))"
      using False by (subst nat_digits.simps) (simp add: decimal_value_def)
    also have "\<dots> = 10 * (n div 10) + n mod 10"
      by (simp add: ih digit_value_nth)
    finally show ?thesis by simp
  qed
qed

lemma Number_toString_decimal:
  "0 \<le> i \<Longrightarrow> int (decimal_value (Number_toString i)) = i"
  by (simp add: Number_toString_def decimal_value_nat_digits)

lemma nat_digits_small: "n < 10 \<Longrightarrow> nat_digits n = [''0123456789'' ! n]"
  by (subst nat_digits.simps) simp

lemma nat_digits_large:
  "10 \<le> n \<Longrightarrow> nat_digits n = nat_digits (n div 10) @ [''0123456789'' ! (n mod 10)]"
  by (subst nat_digits.simps) simp

lemma hex_value_table: "list_all (\<lambda>k. hex_value (hexdigit k) = Some k) [0..<16]"
  by code_simp

lemma hex_value_hexdigit: "n < 16 \<Longrightarrow> hex_value (hexdigit n) = Some n"
  using hex_value_table by (simp add: list_all_iff)

lemma byte_of_nibbles: "of_nat (16 * (unat w div 16) + unat w mod 16) = (w :: 8 word)"
  by simp

lemma hex_decode_hex_byte:
  "hex_decode (hex_byte w @ cs) = map_option ((#) w) (hex_decode cs)"
proof -
  have "unat w < 256" using unsigned_less [of w, where ?'a = nat] by simp
  then have a: "unat w div 16 < 16" by simp
  have b: "unat w mod 16 < 16" by simp
  show ?thesis
    by (simp add: hex_byte_def hex_value_hexdigit [OF a] hex_value_hexdigit [OF b]
        byte_of_nibbles split: option.splits)
qed

lemma hex_decode_digest_hex: "hex_decode (digest_hex bs) = Some bs"
proof (induction bs)
  case Nil
  show ?case by (simp add: digest_hex_def)
next
  case (Cons w ws)
  have "digest_hex (w # ws) = hex_byte w @ digest_hex ws" by (simp add: digest_hex_def)
  then show ?case by (simp add: hex_decode_hex_byte Cons.IH)
qed

lemma digest_hex_length: "length (digest_hex bs) = 2 * length bs"
  unfolding digest_hex_def by (induction bs) (auto simp: hex_byte_def)

lemma nat_digits_chars: "set (nat_digits n) \<subseteq> set ''0123456789''"
proof (induction n rule: nat_digits.induct)
  case (1 n)
  have m: "''0123456789'' ! (n mod 10) \<in> set ''0123456789''" by (rule nth_mem) simp
  show ?case
  proof (cases "n < 10")
    case True
    then have "''0123456789'' ! n \<in> set ''0123456789''" by (intro nth_mem) simp
    then show ?thesis using True by (subst nat_digits.simps) simp
  next
    case False
    with 1 have "set (nat_digits (n div 10)) \<subseteq> set ''0123456789''" by simp
    then show ?thesis using False m by (subst nat_digits.simps) simp
  qed
qed

lemma digit_zero: "n < 10 \<Longrightarrow> (''0123456789'' ! n = CHR ''0'') = (n = 0)"
proof -
  assume "n < 10"
  then have "n \<in> {0,1,2,3,4,5,6,7,8,9}" by auto
  then show ?thesis by auto
qed

lemma nat_digits_canonical:
  "nat_digits n \<noteq> [] \<and> (hd (nat_digits n) = CHR ''0'' \<longrightarrow> n = 0)"
proof (induction n rule: nat_digits.induct)
  case (1 n)
  show ?case
  proof (cases "n < 10")
    case True
    then show ?thesis by (subst (1 2) nat_digits_small) (simp_all add: digit_zero)
  next
    case False
    with 1 have ih: "nat_digits (n div 10) \<noteq> []"
      "hd (nat_digits (n div 10)) = CHR ''0'' \<longrightarrow> n div 10 = 0" by simp_all
    from False have l: "10 \<le> n" by simp
    have "nat_digits n = nat_digits (n div 10) @ [''0123456789'' ! (n mod 10)]"
      using l by (rule nat_digits_large)
    with ih False show ?thesis by (auto simp: hd_append)
  qed
qed

lemma toUpperCase_get: "toUpperCase ''get'' = ''GET''"
  by code_simp

lemma toUpperCase_delete: "toUpperCase ''delete'' = ''DELETE''"
  by code_simp

lemma Number_toString_nonneg: "0 \<le> i \<Longrightarrow> Number_toString i = nat_digits (nat i)"
  by (simp add: Number_toString_def)

lemma toUpperCase_post: "toUpperCase ''post'' = ''POST''"
  by code_simp

text \<open>
  Claim C2. For a millisecond timestamp (a time value of the runtime, from 0 to
  8.64e15), the signature is lowercase hexadecimal text, two digits for each byte,
  that reads back as the HMAC keyed by the secret over the text made of the timestamp
  in decimal digits (no sign, no leading zero), the method, the path and the payload,
  in this order with nothing between them. \<^verbatim>\<open>protectedRequest\<close> sends this signature,
  computed for the method in upper case and for the empty payload unless the request is
  a \<^verbatim>\<open>post\<close>.
\<close>

theorem getSignature_is_hex_hmac_of_concatenation:
  assumes "0 \<le> timestamp" and "timestamp \<le> 8640000000000000"
  shows "hex_decode (getSignature hmac secret timestamp method requestPath (Some payload))
           = Some (hmac secret (Number_toString timestamp @ method @ requestPath @ payload))
       \<and> length (getSignature hmac secret timestamp method requestPath (Some payload))
           = 2 * length (hmac secret (Number_toString timestamp @ method @ requestPath @ payload))
       \<and> set (getSignature hmac secret timestamp method requestPath (Some payload))
           \<subseteq> set ''0123456789abcdef''
       \<and> set (Number_toString timestamp) \<subseteq> set ''0123456789''
       \<and> int (decimal_value (Number_toString timestamp)) = timestamp
       \<and> Number_toString timestamp \<noteq> []
       \<and> (hd (Number_toString timestamp) = CHR ''0'' \<longrightarrow> timestamp = 0)
       \<and> Signature (opt_headers (protectedRequest hmac st timestamp type path d))
           = getSignature hmac (secret_key (config st)) timestamp (toUpperCase type) path
               (if type = ''post'' then JSON_stringify d else Some [])
       \<and> toUpperCase ''get'' = ''GET'' \<and> toUpperCase ''post'' = ''POST''
       \<and> toUpperCase ''delete'' = ''DELETE''"
proof (intro conjI)
  let ?text = "Number_toString timestamp @ method @ requestPath @ payload"
  have g: "getSignature hmac secret timestamp method requestPath (Some payload)
             = digest_hex (hmac secret ?text)"
    by (simp add: getSignature_def render_def)
  show "hex_decode (getSignature hmac secret timestamp method requestPath (Some payload))
          = Some (hmac secret ?text)"
    unfolding g by (rule hex_decode_digest_hex)
  show "length (getSignature hmac secret timestamp method requestPath (Some payload))
          = 2 * length (hmac secret ?text)"
    unfolding g by (rule digest_hex_length)
  show "set (getSignature hmac secret timestamp method requestPath (Some payload))
          \<subseteq> set ''0123456789abcdef''"
    unfolding g by (rule digest_hex_chars)
  have n: "Number_toString timestamp = nat_digits (nat timestamp)"
    using assms(1) by (rule Number_toString_nonneg)
  show "set (Number_toString timestamp) \<subseteq> set ''0123456789''"
    unfolding n by (rule nat_digits_chars)
  show "int (decimal_value (Number_toString timestamp)) = timestamp"
    using assms(1) by (rule Number_toString_decimal)
  show "Number_toString timestamp \<noteq> []"
    unfolding n using nat_digits_canonical [of "nat timestamp"] by blast
  show "hd (Number_toString timestamp) = CHR ''0'' \<longrightarrow> timestamp = 0"
    unfolding n using nat_digits_canonical [of "nat timestamp"] assms(1) by auto
  show "Signature (opt_headers (protectedRequest hmac st timestamp type path d))
          = getSignature hmac (secret_key (config st)) timestamp (toUpperCase type) path
              (if type = ''post'' then JSON_stringify d else Some [])"
    by (simp add: protectedRequest_def Let_def)
  show "toUpperCase ''get'' = ''GET''" by (rule toUpperCase_get)
  show "toUpperCase ''post'' = ''POST''" by (rule toUpperCase_post)
  show "toUpperCase ''delete'' = ''DELETE''" by (rule toUpperCase_delete)
qed

lemma Number_toString_1700000000000: "Number_toString 1700000000000 = ''1700000000000''"
  by (simp add: Number_toString_def nat_digits_small nat_digits_large)

theorem getSignature_is_hex_hmac_of_concatenation_witness:
  "hex_decode (getSignature (\<lambda>k m. map of_char m) ''secret'' 1700000000000 ''POST''
                 ''/v1/api/spot/orders'' (Some ''{}''))
     = Some (map of_char ''1700000000000POST/v1/api/spot/orders{}'')
   \<and> decimal_value ''1700000000000'' = 1700000000000"
proof -
  have a: "(0::int) \<le> 1700000000000" and b: "(1700000000000::int) \<le> 8640000000000000"
    by simp_all
  from getSignature_is_hex_hmac_of_concatenation [OF a b, of "\<lambda>k m. map of_char m" "''secret''"
      "''POST''" "''/v1/api/spot/orders''" "''{}''"]
  have h: "hex_decode (getSignature (\<lambda>k m. map of_char m) ''secret'' 1700000000000 ''POST''
                 ''/v1/api/spot/orders'' (Some ''{}''))
             = Some (map of_char (Number_toString 1700000000000 @ ''POST''
                                  @ ''/v1/api/spot/orders'' @ ''{}''))"
    and d: "int (decimal_value (Number_toString 1700000000000)) = 1700000000000"
    by blast+
  from h have "hex_decode (getSignature (\<lambda>k m. map of_char m) ''secret'' 1700000000000 ''POST''
                 ''/v1/api/spot/orders'' (Some ''{}''))
     = Some (map of_char ''1700000000000POST/v1/api/spot/orders{}'')"
    unfolding Number_toString_1700000000000 by simp
  moreover from d have "decimal_value ''1700000000000'' = 1700000000000"
    unfolding Number_toString_1700000000000 by simp
  ultimately show ?thesis by blast
qed

text \<open>
  Claim C8. In a \<^verbatim>\<open>post\<close> request the body handed to the HTTP layer is the one string
  \<^verbatim>\<open>JSON.stringify(data)\<close>, the signature sent is the signature of that same string,
  and no query parameters are set.
\<close>

theorem post_body_sent_is_body_signed:
  "type = ''post'' \<Longrightarrow>
     opt_data (protectedRequest hmac st timestamp type path d) = Some (JSON_stringify d)
   \<and> opt_params (protectedRequest hmac st timestamp type path d) = None
   \<and> Signature (opt_headers (protectedRequest hmac st timestamp type path d))
       = getSignature hmac (secret_key (config st)) timestamp ''POST'' path (JSON_stringify d)"
  by (simp add: protectedRequest_def Let_def toUpperCase_post)

lemma stringify_order_example:
  \<open>JSON_stringify (JObj [(''symbol'', JStr ''BTC-USDT''), (''orderId'', JStr ''17'')])
     = Some ''{"symbol":"BTC-USDT","orderId":"17"}''\<close>
  by (simp add: json_quote_def json_escape_def)

theorem post_body_sent_is_body_signed_witness:
  \<open>opt_data (protectedRequest (\<lambda>k m. [42, 255]) initial_state 1700000000000 ''post''
       ''/v1/api/spot/orderdetail'' (JObj [(''symbol'', JStr ''BTC-USDT''), (''orderId'', JStr ''17'')]))
     = Some (Some ''{"symbol":"BTC-USDT","orderId":"17"}'')
   \<and> Signature (opt_headers (protectedRequest (\<lambda>k m. [42, 255]) initial_state 1700000000000
         ''post'' ''/v1/api/spot/orderdetail''
         (JObj [(''symbol'', JStr ''BTC-USDT''), (''orderId'', JStr ''17'')])))
     = getSignature (\<lambda>k m. [42, 255]) [] 1700000000000 ''POST'' ''/v1/api/spot/orderdetail''
         (Some ''{"symbol":"BTC-USDT","orderId":"17"}'')\<close>
  using post_body_sent_is_body_signed [of "''post''" "\<lambda>k m. [42, 255]" initial_state
      1700000000000 "''/v1/api/spot/orderdetail''"
      "JObj [(''symbol'', JStr ''BTC-USDT''), (''orderId'', JStr ''17'')]"]
  unfolding stringify_order_example by (simp add: initial_state_def)

section \<open>Configuration\<close>

text \<open>
  Claim C9. With the public-only flag set, \<^verbatim>\<open>setConfig\<close> leaves the credentials as they
  were. Whatever the flag, the base URL changes only to an override that was passed (and
  is not empty), the logger only to a logger that was passed; the state has no other
  component. Without the flag the credentials become the ones passed.
\<close>

theorem setConfig_frame:
  "(publicOnly = Some True \<longrightarrow>
      config (setConfig apiServer k s p lg publicOnly st) = config st)
   \<and> (WEB_BASE (setConfig apiServer k s p lg publicOnly st) \<noteq> WEB_BASE st \<longrightarrow>
        (\<exists>u. apiServer = Some u \<and> u \<noteq> []
             \<and> WEB_BASE (setConfig apiServer k s p lg publicOnly st) = u))
   \<and> (log (setConfig apiServer k s p lg publicOnly st) \<noteq> log st \<longrightarrow>
        (\<exists>l. lg = Some l \<and> log (setConfig apiServer k s p lg publicOnly st) = l))
   \<and> (publicOnly \<noteq> Some True \<longrightarrow>
        config (setConfig apiServer k s p lg publicOnly st)
          = \<lparr> apiKey = k, secret_key = s, tradePwd = p \<rparr>)
   \<and> setConfig apiServer k s p lg publicOnly st
        = \<lparr> WEB_BASE = WEB_BASE (setConfig apiServer k s p lg publicOnly st),
            config = config (setConfig apiServer k s p lg publicOnly st),
            log = log (setConfig apiServer k s p lg publicOnly st) \<rparr>"
  by (auto simp: setConfig_def Let_def split: option.splits)

theorem setConfig_frame_witness:
  "config (setConfig (Some ''https://mirror.example'') ''key'' ''secret'' ''pwd''
             (Some \<lparr> has_log = True, has_warn = True \<rparr>) (Some True) initial_state)
     = config initial_state
   \<and> WEB_BASE (setConfig (Some ''https://mirror.example'') ''key'' ''secret'' ''pwd''
             (Some \<lparr> has_log = True, has_warn = True \<rparr>) (Some True) initial_state)
     = ''https://mirror.example''
   \<and> log (setConfig (Some ''https://mirror.example'') ''key'' ''secret'' ''pwd''
             (Some \<lparr> has_log = True, has_warn = True \<rparr>) (Some True) initial_state)
     = \<lparr> has_log = True, has_warn = True \<rparr>"
  using setConfig_frame [of "Some True" "Some ''https://mirror.example''" "''key''" "''secret''"
      "''pwd''" "Some \<lparr> has_log = True, has_warn = True \<rparr>" initial_state]
  by (simp add: initial_state_def setConfig_def)

section \<open>The paths through the classifier\<close>

text \<open>Each lemma follows \<^verbatim>\<open>handleResponse\<close> along one path and gives the events of the
  call in full.\<close>

lemma get_field_nullish: "nullish d \<Longrightarrow> get_field d k = JUndefined"
  by (auto simp: nullish_def)

lemma read_field_ok: "\<not> nullish d \<Longrightarrow> read_field d k = Inr (get_field d k)"
  by (simp add: read_field_def nullish_def)

lemma success_of_200:
  "\<not> nullish d \<Longrightarrow>
     success_of (Some 200) d = Inr (get_field d ''code'' = JNum 200 \<or> get_field d ''code'' = JStr ''0'')"
  by (simp add: success_of_def read_field_ok)

lemma success_of_other: "h \<noteq> Some 200 \<Longrightarrow> success_of h d = Inr False"
  by (simp add: success_of_def)

lemma error_of_success_code:
  "get_field d ''code'' = JNum 200 \<or> get_field d ''code'' = JStr ''0'' \<Longrightarrow> \<exists>error. error_of d = Inr error"
  by (cases "nullish d") (auto simp: error_of_def opt_field_def get_field_nullish)

lemma error_of_code:
  assumes "error_of d = Inr error"
  shows "\<exists>c. ToString (err_code error) = Inr c"
proof -
  from assms obtain key where k: "ToString (opt_field d ''code'') = Inr key"
    and e: "err_code error = coalesce (opt_field d ''code'') (JStr ''No error code'')"
    by (auto simp: error_of_def split: sum.splits)
  show ?thesis
    by (cases "nullish (opt_field d ''code'')") (simp_all add: e coalesce_def k)
qed

lemma handleResponse_success:
  assumes h: "httpCode_of r = Some 200"
    and c: "get_field (data_of r) ''code'' = JNum 200 \<or> get_field (data_of r) ''code'' = JStr ''0''"
  shows "handleResponse lg r q url
           = ([ConsoleLog (data_of r), Resolve (get_field (data_of r) ''data'')], Returned)"
proof -
  from c have n: "\<not> nullish (data_of r)" by (auto simp: get_field_nullish)
  from error_of_success_code [OF c] obtain error where e: "error_of (data_of r) = Inr error" ..
  show ?thesis
    using c by (simp add: handleResponse_def Let_def h success_of_200 [OF n] e try_block_def)
qed

lemma set_info_nonnullish:
  "\<not> nullish d \<Longrightarrow> (if typeof_object d then set_fameexErrorInfo d s else Inr d) = set_fameexErrorInfo d s"
  by (cases d) (auto simp: nullish_def)

lemma handleResponse_soft:
  assumes h: "httpCode_of r = Some 200"
    and n: "\<not> nullish (data_of r)"
    and c: "get_field (data_of r) ''code'' \<noteq> JNum 200" "get_field (data_of r) ''code'' \<noteq> JStr ''0''"
    and e: "error_of (data_of r) = Inr error"
    and k: "ToString (err_code error) = Inr code"
    and m: "String_msg (err_msg error) = Inr msg"
    and s: "set_fameexErrorInfo (data_of r) (''['' @ code @ ''] '' @ trimAny (err_msg error) '' .'') = Inr d'"
    and l: "has_log lg"
  shows "handleResponse lg r q url
           = ([ConsoleLog (data_of r),
               LogLog (''FameEX processed a request to '' @ url @ '' with data ''
                       @ (if q \<noteq> [] then q else ''{ No parameters }'')
                       @ '', but with error: '' @ msg @ ''. Resolving'' @ ellipsis),
               Resolve d'], Returned)"
  using c l s
  by (simp add: handleResponse_def Let_def h success_of_200 [OF n] e try_block_def k m
      set_info_nonnullish [OF n])

lemma handleResponse_reject:
  assumes h: "httpCode_of r = Some n" "n \<noteq> 200" "n \<noteq> 0"
    and d: "data_of r \<noteq> JNull"
    and e: "error_of (data_of r) = Inr error"
    and k: "ToString (err_code error) = Inr code"
    and w: "has_warn lg"
  shows "handleResponse lg r q url
           = ([ConsoleLog (data_of r),
               LogWarn (''Request to '' @ url @ '' with data ''
                        @ (if q \<noteq> [] then q else ''{ No parameters }'')
                        @ '' failed. details: ''
                        @ Number_toString n @ '' '' @ render (httpMessage_of r) @ '', ['' @ code
                        @ ''] '' @ trimAny (err_msg error) '' .''
                        @ ''. Rejecting'' @ ellipsis),
               Reject (Number_toString n @ '' '' @ render (httpMessage_of r) @ '', ['' @ code
                       @ ''] '' @ trimAny (err_msg error) '' .'')], Returned)"
proof (cases "typeof_object (data_of r)")
  case True
  with d obtain d' where
    "set_fameexErrorInfo (data_of r) (''['' @ code @ ''] '' @ trimAny (err_msg error) '' .'') = Inr d'"
    by (cases "data_of r") auto
  then show ?thesis
    using h w True
    by (simp add: handleResponse_def Let_def success_of_other e try_block_def k)
next
  case False
  then show ?thesis
    using h w
    by (simp add: handleResponse_def Let_def success_of_other e try_block_def k)
qed

lemma table_get_undefined: "table_get ''undefined'' = None"
  by code_simp

lemma error_of_undefined:
  "error_of JUndefined = Inr \<lparr> err_code = JStr ''No error code'', err_msg = Val (JStr ''Unknown error'') \<rparr>"
  by (simp add: error_of_def opt_field_def nullish_def coalesce_def table_get_undefined)

lemma error_of_null:
  "error_of JNull = Inr \<lparr> err_code = JStr ''No error code'', err_msg = Val (JStr ''Unknown error'') \<rparr>"
  by (simp add: error_of_def opt_field_def nullish_def coalesce_def table_get_undefined)

lemma handleResponse_transport:
  assumes "err_response e = None" and "has_warn lg"
  shows "handleResponse lg (Failure e) q url
           = ([ConsoleLog JUndefined,
               LogWarn (''Request to '' @ url @ '' with data ''
                        @ (if q \<noteq> [] then q else ''{ No parameters }'')
                        @ '' failed. details: '' @ String_outcome (Failure e)
                        @ ''. Rejecting'' @ ellipsis),
               Reject (String_outcome (Failure e))], Returned)"
  using assms
  by (simp add: handleResponse_def Let_def httpCode_of_def httpMessage_of_def data_of_def
      success_of_other error_of_undefined try_block_def)

lemma handleResponse_catch:
  assumes "success_of (httpCode_of r) (data_of r) = Inr success"
    and "error_of (data_of r) = Inr error"
    and "try_block lg r success (httpCode_of r) (httpMessage_of r) (data_of r) error
           (if q \<noteq> [] then q else ''{ No parameters }'') url = (evs, d', Some e)"
    and "has_warn lg"
  shows "handleResponse lg r q url
           = (ConsoleLog (data_of r) # evs @
                [LogWarn (''Error while processing response of request to '' @ url
                          @ '' with data '' @ (if q \<noteq> [] then q else ''{ No parameters }'')
                          @ '': '' @ String_exn e
                          @ ''. Data object I've got: ''
                          @ render (JSON_stringify d') @ ''.''),
                 Reject (''Unable to process data: '' @ render (JSON_stringify d')
                         @ ''. '' @ String_exn e)],
              Returned)"
  using assms by (simp add: handleResponse_def Let_def)

lemma try_block_null:
  assumes "h \<noteq> Some 200"
  shows "try_block lg r False h hm JNull
           \<lparr> err_code = JStr ''No error code'', err_msg = Val (JStr ''Unknown error'') \<rparr> rp url
         = ([], JNull, Some (TypeError ''Cannot set properties of null (setting 'fameexErrorInfo')''))"
  by (simp add: try_block_def Let_def)

lemma handleResponse_null_body:
  assumes "httpCode_of r \<noteq> Some 200" and "data_of r = JNull" and "has_warn lg"
  shows "handleResponse lg r q url
           = ([ConsoleLog JNull,
               LogWarn (''Error while processing response of request to '' @ url
                          @ '' with data '' @ (if q \<noteq> [] then q else ''{ No parameters }'')
                          @ '': TypeError: Cannot set properties of null (setting 'fameexErrorInfo')''
                          @ ''. Data object I've got: null.''),
               Reject ''Unable to process data: null. TypeError: Cannot set properties of null (setting 'fameexErrorInfo')''],
              Returned)"
proof -
  have s: "success_of (httpCode_of r) (data_of r) = Inr False"
    using assms(1) by (rule success_of_other)
  have e: "error_of (data_of r) = Inr \<lparr> err_code = JStr ''No error code'', err_msg = Val (JStr ''Unknown error'') \<rparr>"
    by (simp add: assms(2) error_of_null)
  have t: "try_block lg r False (httpCode_of r) (httpMessage_of r) (data_of r)
             \<lparr> err_code = JStr ''No error code'', err_msg = Val (JStr ''Unknown error'') \<rparr>
             (if q \<noteq> [] then q else ''{ No parameters }'') url
           = ([], JNull, Some (TypeError ''Cannot set properties of null (setting 'fameexErrorInfo')''))"
    unfolding assms(2) using assms(1) by (rule try_block_null)
  show ?thesis
    unfolding handleResponse_catch [OF s e t assms(3)]
    by (simp add: assms(2) String_exn_def render_def)
qed

lemma handleResponse_no_body_200:
  assumes "httpCode_of r = Some 200" and "data_of r = JUndefined"
  shows "handleResponse lg r q url
           = ([], Threw (TypeError ''Cannot read properties of undefined (reading 'code')''))"
  using assms by (simp add: handleResponse_def Let_def success_of_def read_field_def)

lemma try_block_shape:
  assumes "try_block lg r success h hm d error rp url = (evs, d', x)"
  shows "(success \<and> evs = [Resolve (get_field d ''data'')] \<and> x = None)
       \<or> (\<not> success \<and> evs = [] \<and> x \<noteq> None)
       \<or> (\<not> success \<and> h = Some 200 \<and> x = None
            \<and> (\<exists>c m. ToString (err_code error) = Inr c
                 \<and> (if typeof_object d
                      then set_fameexErrorInfo d (''['' @ c @ ''] '' @ trimAny (err_msg error) '' .'')
                      else Inr d) = Inr d'
                 \<and> evs = [LogLog m, Resolve d']))
       \<or> (\<not> success \<and> h \<noteq> Some 200 \<and> x = None \<and> (\<exists>m s. evs = [LogWarn m, Reject s]))"
  using assms unfolding try_block_def Let_def
  by (auto split: if_splits sum.splits option.splits)

lemma handleResponse_shape:
  "(\<exists>e. handleResponse lg r q url = ([], Threw e))
 \<or> (\<exists>e. handleResponse lg r q url = ([ConsoleLog (data_of r)], Threw e))
 \<or> (httpCode_of r = Some 200
      \<and> (get_field (data_of r) ''code'' = JNum 200 \<or> get_field (data_of r) ''code'' = JStr ''0'')
      \<and> handleResponse lg r q url
          = ([ConsoleLog (data_of r), Resolve (get_field (data_of r) ''data'')], Returned))
 \<or> (httpCode_of r = Some 200 \<and> \<not> nullish (data_of r)
      \<and> get_field (data_of r) ''code'' \<noteq> JNum 200 \<and> get_field (data_of r) ''code'' \<noteq> JStr ''0''
      \<and> (\<exists>error c m d'. error_of (data_of r) = Inr error \<and> ToString (err_code error) = Inr c
            \<and> set_fameexErrorInfo (data_of r) (''['' @ c @ ''] '' @ trimAny (err_msg error) '' .'') = Inr d'
            \<and> handleResponse lg r q url = ([ConsoleLog (data_of r), LogLog m, Resolve d'], Returned)))
 \<or> (\<exists>m s. handleResponse lg r q url = ([ConsoleLog (data_of r), LogWarn m, Reject s], Returned))"
proof (cases "success_of (httpCode_of r) (data_of r)")
  case (Inl e)
  then show ?thesis by (simp add: handleResponse_def Let_def)
next
  case s: (Inr success)
  show ?thesis
  proof (cases "error_of (data_of r)")
    case (Inl e)
    then show ?thesis using s by (simp add: handleResponse_def Let_def)
  next
    case e: (Inr error)
    obtain evs d' x where t:
      "try_block lg r success (httpCode_of r) (httpMessage_of r) (data_of r) error
         (if q \<noteq> [] then q else ''{ No parameters }'') url = (evs, d', x)"
      by (metis prod_cases3)
    have nn: "httpCode_of r = Some 200 \<Longrightarrow> \<not> nullish (data_of r)"
      using s by (auto simp: success_of_def read_field_def nullish_def split: if_splits)
    have sv: "httpCode_of r = Some 200 \<Longrightarrow>
              success = (get_field (data_of r) ''code'' = JNum 200 \<or> get_field (data_of r) ''code'' = JStr ''0'')"
      using s nn by (auto simp: success_of_200)
    have s0: "httpCode_of r \<noteq> Some 200 \<Longrightarrow> \<not> success"
      using s by (simp add: success_of_other)
    from try_block_shape [OF t] consider
        (ok) "success" "evs = [Resolve (get_field (data_of r) ''data'')]" "x = None"
      | (exn) "\<not> success" "evs = []" "x \<noteq> None"
      | (soft) c m where "\<not> success" "httpCode_of r = Some 200" "x = None"
          "ToString (err_code error) = Inr c"
          "(if typeof_object (data_of r)
            then set_fameexErrorInfo (data_of r) (''['' @ c @ ''] '' @ trimAny (err_msg error) '' .'')
            else Inr (data_of r)) = Inr d'"
          "evs = [LogLog m, Resolve d']"
      | (rej) m s' where "\<not> success" "httpCode_of r \<noteq> Some 200" "x = None" "evs = [LogWarn m, Reject s']"
      by blast
    then show ?thesis
    proof cases
      case ok
      have h: "httpCode_of r = Some 200" using ok(1) s0 by blast
      have "handleResponse lg r q url
              = ([ConsoleLog (data_of r), Resolve (get_field (data_of r) ''data'')], Returned)"
        using s e t ok by (simp add: handleResponse_def Let_def)
      then show ?thesis using h sv ok(1) by simp
    next
      case exn
      then obtain ex where x: "x = Some ex" by auto
      show ?thesis
      proof (cases "has_warn lg")
        case True
        show ?thesis
          unfolding handleResponse_catch [OF s e t [unfolded x] True] using exn(2) by simp
      next
        case False
        then have "handleResponse lg r q url
                     = ([ConsoleLog (data_of r)], Threw (TypeError ''log.warn is not a function''))"
          using s e t x exn(2) by (simp add: handleResponse_def Let_def)
        then show ?thesis by simp
      qed
    next
      case soft
      have n: "\<not> nullish (data_of r)" using nn soft(2) by simp
      have si: "set_fameexErrorInfo (data_of r) (''['' @ c @ ''] '' @ trimAny (err_msg error) '' .'') = Inr d'"
        using soft(5) unfolding set_info_nonnullish [OF n] .
      have hr: "handleResponse lg r q url = ([ConsoleLog (data_of r), LogLog m, Resolve d'], Returned)"
        using s e t soft(3,6) by (simp add: handleResponse_def Let_def)
      show ?thesis
        using soft(1,2,4) sv n e si hr by blast
    next
      case rej
      have "handleResponse lg r q url = ([ConsoleLog (data_of r), LogWarn m, Reject s'], Returned)"
        using s e t rej(3,4) by (simp add: handleResponse_def Let_def)
      then show ?thesis by blast
    qed
  qed
qed

lemma settled_at_most_once: "settled (fst (handleResponse lg r q url)) \<le> 1"
  using handleResponse_shape [of lg r q url]
  by (auto simp: settled_def)

lemma size_prop_lt:
  "(k, x) \<in> set ps \<Longrightarrow> size x < Suc (size_list (size_prod (\<lambda>_. 0) size) ps)"
  by (induction ps) auto

lemma update_keeps:
  "(k, x) \<in> set ps \<Longrightarrow> k \<noteq> k' \<Longrightarrow> (k, x) \<in> set (AList.update k' v ps)"
  by (induction ps) auto

lemma prop_not_whole_obj:
  "map_of ps ''data'' = Some x \<Longrightarrow> x \<noteq> JObj (AList.update ''fameexErrorInfo'' v ps)"
proof
  assume m: "map_of ps ''data'' = Some x" and eq: "x = JObj (AList.update ''fameexErrorInfo'' v ps)"
  from m have "(''data'', x) \<in> set ps" by (rule map_of_SomeD)
  then have "(''data'', x) \<in> set (AList.update ''fameexErrorInfo'' v ps)"
    by (rule update_keeps) simp
  from size_prop_lt [OF this] have "size x < size (JObj (AList.update ''fameexErrorInfo'' v ps))"
    by simp
  with eq show False by simp
qed

lemma prop_not_whole_arr:
  "map_of ps ''data'' = Some x \<Longrightarrow> x \<noteq> JArr es (AList.update ''fameexErrorInfo'' v ps)"
proof
  assume m: "map_of ps ''data'' = Some x" and eq: "x = JArr es (AList.update ''fameexErrorInfo'' v ps)"
  from m have "(''data'', x) \<in> set ps" by (rule map_of_SomeD)
  then have "(''data'', x) \<in> set (AList.update ''fameexErrorInfo'' v ps)"
    by (rule update_keeps) simp
  from size_prop_lt [OF this] have "size x < size (JArr es (AList.update ''fameexErrorInfo'' v ps))"
    by simp
  with eq show False by simp
qed

lemma annotated_is_not_data_field:
  assumes "set_fameexErrorInfo d s = Inr d'" and "\<not> nullish d"
  shows "d' \<noteq> get_field d ''data''"
  using assms
  by (cases d) (auto simp: nullish_def dest: prop_not_whole_obj prop_not_whole_arr split: option.splits)

lemma set_info_get_field:
  assumes "set_fameexErrorInfo d s = Inr d'"
  shows "get_field d' k = (if k = ''fameexErrorInfo'' \<and> typeof_object d then JStr s else get_field d k)"
  using assms by (cases d) (auto simp: update_conv')

text \<open>
  The logger. The module starts with \<^verbatim>\<open>log = {}\<close>; until \<^verbatim>\<open>setConfig\<close> has been given a
  logger, \<^verbatim>\<open>log.warn\<close> is not a function, and a call of the classifier that does not
  end in the success or the soft-failure branch throws from its \<^verbatim>\<open>catch\<close> block. The
  statements below on rejections therefore ask for a logger that has \<^verbatim>\<open>warn\<close>.
\<close>

lemma try_block_without_warn:
  assumes "\<not> has_warn lg" and "h \<noteq> Some 200"
  shows "\<exists>evs d' e. try_block lg r False h hm d error rp url = (evs, d', Some e)"
  using assms unfolding try_block_def Let_def
  by (auto split: sum.splits option.splits)

lemma unconfigured_logger_throws:
  assumes "\<not> has_warn lg" and "httpCode_of r \<noteq> Some 200"
  shows "\<exists>evs e. handleResponse lg r q url = (evs, Threw e)"
proof (cases "error_of (data_of r)")
  case (Inl e)
  then show ?thesis
    using assms(2) by (simp add: handleResponse_def Let_def success_of_other)
next
  case (Inr error)
  from try_block_without_warn [OF assms]
  obtain evs d' e where
    "try_block lg r False (httpCode_of r) (httpMessage_of r) (data_of r) error
       (if q \<noteq> [] then q else ''{ No parameters }'') url = (evs, d', Some e)"
    by blast
  then show ?thesis
    using assms Inr by (simp add: handleResponse_def Let_def success_of_other)
qed

lemma initial_logger_has_no_warn: "\<not> has_warn (log initial_state)"
  by (simp add: initial_state_def)

lemma returned_settles_once:
  "snd (handleResponse lg r q url) = Returned \<Longrightarrow> settled (fst (handleResponse lg r q url)) = 1"
  using handleResponse_shape [of lg r q url]
  by (auto simp: settled_def)

section \<open>Success\<close>

lemma success_example:
  "handleResponse lg
     (Response \<lparr> status = 200, statusText = ''OK'',
                 data = JObj [(''code'', JNum 200), (''data'', JObj [(''balance'', JNum 5)])] \<rparr>)
     q url
   = ([ConsoleLog (JObj [(''code'', JNum 200), (''data'', JObj [(''balance'', JNum 5)])]),
       Resolve (JObj [(''balance'', JNum 5)])], Returned)"
  by (subst handleResponse_success)
     (simp_all add: httpCode_of_def data_of_def coalesce_def nullish_def)

text \<open>
  Claim C1. The classifier calls \<^verbatim>\<open>resolve\<close> with \<^verbatim>\<open>body.data\<close> exactly when the
  status is 200 and \<^verbatim>\<open>body.code\<close> is the number 200 or the string \<^verbatim>\<open>"0"\<close>; so a status
  of 200 with any other code is no success. In the success case the call is the debug
  print of line 66 followed by the \<^verbatim>\<open>resolve\<close>: no line goes to the logger.
\<close>

theorem success_iff_resolves_with_data:
  "(Resolve (get_field (data_of r) ''data'') \<in> set (fst (handleResponse lg r q url))
      \<longleftrightarrow> httpCode_of r = Some 200
          \<and> (get_field (data_of r) ''code'' = JNum 200 \<or> get_field (data_of r) ''code'' = JStr ''0''))
   \<and> (httpCode_of r = Some 200
        \<and> (get_field (data_of r) ''code'' = JNum 200 \<or> get_field (data_of r) ''code'' = JStr ''0'')
      \<longrightarrow> handleResponse lg r q url
            = ([ConsoleLog (data_of r), Resolve (get_field (data_of r) ''data'')], Returned)
          \<and> filter logger_line (fst (handleResponse lg r q url)) = [])"
proof -
  let ?cond = "httpCode_of r = Some 200
        \<and> (get_field (data_of r) ''code'' = JNum 200 \<or> get_field (data_of r) ''code'' = JStr ''0'')"
  have fwd: "handleResponse lg r q url
            = ([ConsoleLog (data_of r), Resolve (get_field (data_of r) ''data'')], Returned)"
    if ?cond
    using that by (simp add: handleResponse_success)
  have bwd: ?cond
    if res: "Resolve (get_field (data_of r) ''data'') \<in> set (fst (handleResponse lg r q url))"
    using handleResponse_shape [of lg r q url]
  proof (elim disjE exE conjE)
    fix error :: norm_error and c m d'
    assume n: "\<not> nullish (data_of r)"
      and s: "set_fameexErrorInfo (data_of r) (''['' @ c @ ''] '' @ trimAny (err_msg error) '' .'') = Inr d'"
      and hr: "handleResponse lg r q url = ([ConsoleLog (data_of r), LogLog m, Resolve d'], Returned)"
    from res hr have "d' = get_field (data_of r) ''data''" by simp
    with annotated_is_not_data_field [OF s n] show ?thesis by simp
  qed (use res in auto)
  show ?thesis
  proof (intro conjI impI)
    show "(Resolve (get_field (data_of r) ''data'') \<in> set (fst (handleResponse lg r q url))) = ?cond"
    proof
      assume "Resolve (get_field (data_of r) ''data'') \<in> set (fst (handleResponse lg r q url))"
      then show ?cond by (rule bwd)
    next
      assume ?cond
      from fwd [OF this]
      show "Resolve (get_field (data_of r) ''data'') \<in> set (fst (handleResponse lg r q url))"
        by simp
    qed
  next
    assume c: ?cond
    show "handleResponse lg r q url
            = ([ConsoleLog (data_of r), Resolve (get_field (data_of r) ''data'')], Returned)"
      using fwd [OF c] .
    show "filter logger_line (fst (handleResponse lg r q url)) = []"
      using fwd [OF c] by simp
  qed
qed

theorem success_iff_resolves_with_data_witness:
  "Resolve (JObj [(''balance'', JNum 5)])
     \<in> set (fst (handleResponse \<lparr> has_log = True, has_warn = True \<rparr>
          (Response \<lparr> status = 200, statusText = ''OK'',
                      data = JObj [(''code'', JNum 200), (''data'', JObj [(''balance'', JNum 5)])] \<rparr>)
          [] ''https://api.fameex.com/v1/api/account/wallet''))
   \<and> filter logger_line (fst (handleResponse \<lparr> has_log = True, has_warn = True \<rparr>
          (Response \<lparr> status = 200, statusText = ''OK'',
                      data = JObj [(''code'', JNum 200), (''data'', JObj [(''balance'', JNum 5)])] \<rparr>)
          [] ''https://api.fameex.com/v1/api/account/wallet'')) = []"
  using success_iff_resolves_with_data [of
      "Response \<lparr> status = 200, statusText = ''OK'',
                  data = JObj [(''code'', JNum 200), (''data'', JObj [(''balance'', JNum 5)])] \<rparr>"
      "\<lparr> has_log = True, has_warn = True \<rparr>" "[]" "''https://api.fameex.com/v1/api/account/wallet''"]
  by (simp add: httpCode_of_def data_of_def coalesce_def nullish_def)

text \<open>The debug print of line 66, \<^verbatim>\<open>console.log({ data })\<close>, is not a line of the
  logger; a call that gets past line 64 makes it, also on success.\<close>

lemma success_prints_body_on_console:
  "ConsoleLog (JObj [(''code'', JNum 200), (''data'', JObj [(''balance'', JNum 5)])])
     \<in> set (fst (handleResponse \<lparr> has_log = True, has_warn = True \<rparr>
          (Response \<lparr> status = 200, statusText = ''OK'',
                      data = JObj [(''code'', JNum 200), (''data'', JObj [(''balance'', JNum 5)])] \<rparr>)
          [] ''https://api.fameex.com/v1/api/account/wallet''))"
  by (simp add: success_example)

section \<open>The examples of the specification, evaluated\<close>

lemma Number_toString_112015: "Number_toString 112015 = ''112015''"
  by (simp add: Number_toString_def nat_digits_small nat_digits_large)
lemma Number_toString_112011: "Number_toString 112011 = ''112011''"
  by (simp add: Number_toString_def nat_digits_small nat_digits_large)
lemma Number_toString_401: "Number_toString 401 = ''401''"
  by (simp add: Number_toString_def nat_digits_small nat_digits_large)

lemma table_get_112015: "table_get ''112015'' = Some (Val (JStr ''Signature error''))"
  by code_simp

lemma table_get_112011:
  "table_get ''112011''
     = Some (Val (JStr ''API request IP access is restricted (the bound IP is inconsistent with the request IP)''))"
  by code_simp

lemma trimAny_signature: "trimAny (Val (JStr ''Signature error'')) '' .'' = ''Signature error''"
  by (simp add: trimAny_def)

lemma trimAny_ip:
  "trimAny (Val (JStr ''API request IP access is restricted (the bound IP is inconsistent with the request IP)'')) '' .''
     = ''API request IP access is restricted (the bound IP is inconsistent with the request IP)''"
  by (simp add: trimAny_def)

lemma trimAny_strips: "trimAny (Val (JStr '' . rate limited. '')) '' .'' = ''rate limited''"
  by (simp add: trimAny_def)

lemma error_of_112015:
  "error_of (JObj [(''code'', JNum 112015), (''msg'', JStr ''bad sig'')])
     = Inr \<lparr> err_code = JNum 112015, err_msg = Val (JStr ''Signature error'') \<rparr>"
  by (simp add: error_of_def opt_field_def nullish_def coalesce_def Number_toString_112015
      table_get_112015)

lemma error_of_112011:
  "error_of (JObj [(''code'', JNum 112011), (''msg'', JStr ''ip restricted'')])
     = Inr \<lparr> err_code = JNum 112011,
             err_msg = Val (JStr ''API request IP access is restricted (the bound IP is inconsistent with the request IP)'') \<rparr>"
  by (simp add: error_of_def opt_field_def nullish_def coalesce_def Number_toString_112011
      table_get_112011)

lemma soft_example:
  "handleResponse \<lparr> has_log = True, has_warn = True \<rparr>
     (Response \<lparr> status = 200, statusText = ''OK'',
                 data = JObj [(''code'', JNum 112015), (''msg'', JStr ''bad sig'')] \<rparr>)
     q url
   = ([ConsoleLog (JObj [(''code'', JNum 112015), (''msg'', JStr ''bad sig'')]),
       LogLog (''FameEX processed a request to '' @ url @ '' with data ''
               @ (if q \<noteq> [] then q else ''{ No parameters }'')
               @ '', but with error: Signature error. Resolving'' @ ellipsis),
       Resolve (JObj [(''code'', JNum 112015), (''msg'', JStr ''bad sig''),
                      (''fameexErrorInfo'', JStr ''[112015] Signature error'')])], Returned)"
proof -
  let ?r = "Response \<lparr> status = 200, statusText = ''OK'',
                 data = JObj [(''code'', JNum 112015), (''msg'', JStr ''bad sig'')] \<rparr>"
  have d: "data_of ?r = JObj [(''code'', JNum 112015), (''msg'', JStr ''bad sig'')]"
    by (simp add: data_of_def coalesce_def nullish_def)
  have "handleResponse \<lparr> has_log = True, has_warn = True \<rparr> ?r q url
      = ([ConsoleLog (data_of ?r),
               LogLog (''FameEX processed a request to '' @ url @ '' with data ''
                       @ (if q \<noteq> [] then q else ''{ No parameters }'')
                       @ '', but with error: '' @ ''Signature error'' @ ''. Resolving'' @ ellipsis),
               Resolve (JObj [(''code'', JNum 112015), (''msg'', JStr ''bad sig''),
                      (''fameexErrorInfo'', JStr ''[112015] Signature error'')])], Returned)"
    by (rule handleResponse_soft [where error = "\<lparr> err_code = JNum 112015, err_msg = Val (JStr ''Signature error'') \<rparr>"
          and code = "''112015''"])
       (simp_all add: d httpCode_of_def nullish_def error_of_112015 Number_toString_112015
          String_msg_def trimAny_signature)
  then show ?thesis by (simp add: d)
qed

section \<open>Exceptions raised before the \<^verbatim>\<open>try\<close>\<close>

text \<open>
  The success test of line 64 and the normalised error of lines 68 to 71 are computed
  before the \<^verbatim>\<open>try\<close> of line 75. Line 64 reads \<^verbatim>\<open>data.code\<close> where lines 69 and 70
  read \<^verbatim>\<open>data?.code\<close>: with status 200 and no body the read throws, and the exception
  leaves \<^verbatim>\<open>handleResponse\<close> without a call of \<^verbatim>\<open>resolve\<close> or \<^verbatim>\<open>reject\<close>. A
  response whose body is \<^verbatim>\<open>null\<close> has no body for the classifier, see \<open>data_of\<close>.
\<close>

lemma String_outcome_TypeError:
  "m \<noteq> [] \<Longrightarrow> String_outcome (Failure (error_obj_of (TypeError m))) = ''TypeError: '' @ m"
  by (simp add: String_outcome_def error_obj_of_def)

lemma null_body_200_throws:
  "handleResponse lg (Response \<lparr> status = 200, statusText = ''OK'', data = JNull \<rparr>) q url
     = ([], Threw (TypeError ''Cannot read properties of undefined (reading 'code')''))"
  by (rule handleResponse_no_body_200)
     (simp_all add: httpCode_of_def data_of_def coalesce_def nullish_def)

lemma then_catch_rethrows:
  assumes "handleResponse lg (Response x) q url = (evs, Threw (TypeError m))"
    and "m \<noteq> []" and "has_warn lg"
  shows "then_catch lg (Response x) q url
           = (evs @ [ConsoleLog JUndefined,
                     LogWarn (''Request to '' @ url @ '' with data ''
                              @ (if q \<noteq> [] then q else ''{ No parameters }'')
                              @ '' failed. details: TypeError: '' @ m
                              @ ''. Rejecting'' @ ellipsis),
                     Reject (''TypeError: '' @ m)], Returned)"
proof -
  have "err_response (error_obj_of (TypeError m)) = None"
    by (simp add: error_obj_of_def)
  from handleResponse_transport [OF this assms(3), of q url]
  show ?thesis
    unfolding then_catch_def by (simp add: assms(1) String_outcome_TypeError [OF assms(2)])
qed

lemma unconvertible_code_throws:
  assumes "data_of r = JObj [(''code'', JObj [(''toString'', JNum 1)])]"
  shows "handleResponse lg r q url
           = ([ConsoleLog (JObj [(''code'', JObj [(''toString'', JNum 1)])])], Threw cannot_convert)"
proof -
  have n: "\<not> nullish (data_of r)" by (simp add: assms nullish_def)
  have s: "success_of (httpCode_of r) (data_of r) = Inr False"
  proof (cases "httpCode_of r = Some 200")
    case True
    with success_of_200 [OF n] show ?thesis by (simp add: assms)
  next
    case False
    then show ?thesis by (rule success_of_other)
  qed
  have e: "error_of (data_of r) = Inl cannot_convert"
    by (simp add: assms error_of_def opt_field_def nullish_def)
  show ?thesis
    by (simp add: handleResponse_def Let_def s e) (simp add: assms)
qed

lemma cannot_convert_rethrown:
  assumes "handleResponse lg (Response x) q url = (evs, Threw cannot_convert)" and "has_warn lg"
  shows "then_catch lg (Response x) q url
           = (evs @ [ConsoleLog JUndefined,
                     LogWarn (''Request to '' @ url @ '' with data ''
                              @ (if q \<noteq> [] then q else ''{ No parameters }'')
                              @ '' failed. details: TypeError: Cannot convert object to primitive value''
                              @ ''. Rejecting'' @ ellipsis),
                     Reject ''TypeError: Cannot convert object to primitive value''], Returned)"
  using then_catch_rethrows [OF assms(1) [unfolded cannot_convert_def] _ assms(2)] by simp

text \<open>
  Claim C3 has every outcome with status 200 and a code other than 200 and \<^verbatim>\<open>"0"\<close>
  resolved with the body. For the response with status 200 and the body \<^verbatim>\<open>null\<close>, and
  for the one whose code is an object with a \<^verbatim>\<open>toString\<close> property, the first handler
  throws before its \<^verbatim>\<open>try\<close>, the \<^verbatim>\<open>.catch\<close> of the dispatcher runs the classifier
  again on the \<^verbatim>\<open>TypeError\<close>, and the caller gets a rejection.
\<close>

theorem soft_failure_is_rejected_when_first_handler_throws:
  "then_catch \<lparr> has_log = True, has_warn = True \<rparr>
       (Response \<lparr> status = 200, statusText = ''OK'', data = JNull \<rparr>) q url
     = ([ConsoleLog JUndefined,
         LogWarn (''Request to '' @ url @ '' with data ''
                  @ (if q \<noteq> [] then q else ''{ No parameters }'')
                  @ '' failed. details: TypeError: Cannot read properties of undefined (reading 'code')''
                  @ ''. Rejecting'' @ ellipsis),
         Reject ''TypeError: Cannot read properties of undefined (reading 'code')''], Returned)
   \<and> then_catch \<lparr> has_log = True, has_warn = True \<rparr>
       (Response \<lparr> status = 200, statusText = ''OK'',
                   data = JObj [(''code'', JObj [(''toString'', JNum 1)])] \<rparr>) q url
     = ([ConsoleLog (JObj [(''code'', JObj [(''toString'', JNum 1)])]),
         ConsoleLog JUndefined,
         LogWarn (''Request to '' @ url @ '' with data ''
                  @ (if q \<noteq> [] then q else ''{ No parameters }'')
                  @ '' failed. details: TypeError: Cannot convert object to primitive value''
                  @ ''. Rejecting'' @ ellipsis),
         Reject ''TypeError: Cannot convert object to primitive value''], Returned)"
proof
  show "then_catch \<lparr> has_log = True, has_warn = True \<rparr>
       (Response \<lparr> status = 200, statusText = ''OK'', data = JNull \<rparr>) q url
     = ([ConsoleLog JUndefined,
         LogWarn (''Request to '' @ url @ '' with data ''
                  @ (if q \<noteq> [] then q else ''{ No parameters }'')
                  @ '' failed. details: TypeError: Cannot read properties of undefined (reading 'code')''
                  @ ''. Rejecting'' @ ellipsis),
         Reject ''TypeError: Cannot read properties of undefined (reading 'code')''], Returned)"
    by (subst then_catch_rethrows [OF null_body_200_throws]) simp_all
  have "handleResponse \<lparr> has_log = True, has_warn = True \<rparr>
          (Response \<lparr> status = 200, statusText = ''OK'',
                      data = JObj [(''code'', JObj [(''toString'', JNum 1)])] \<rparr>) q url
        = ([ConsoleLog (JObj [(''code'', JObj [(''toString'', JNum 1)])])], Threw cannot_convert)"
    by (rule unconvertible_code_throws) (simp add: data_of_def coalesce_def nullish_def)
  from cannot_convert_rethrown [OF this]
  show "then_catch \<lparr> has_log = True, has_warn = True \<rparr>
       (Response \<lparr> status = 200, statusText = ''OK'',
                   data = JObj [(''code'', JObj [(''toString'', JNum 1)])] \<rparr>) q url
     = ([ConsoleLog (JObj [(''code'', JObj [(''toString'', JNum 1)])]),
         ConsoleLog JUndefined,
         LogWarn (''Request to '' @ url @ '' with data ''
                  @ (if q \<noteq> [] then q else ''{ No parameters }'')
                  @ '' failed. details: TypeError: Cannot convert object to primitive value''
                  @ ''. Rejecting'' @ ellipsis),
         Reject ''TypeError: Cannot convert object to primitive value''], Returned)"
    by simp
qed

text \<open>
  Claim C4 has every call of the classifier settle the promise exactly once. No call
  settles it twice. The call on status 200 with the body \<^verbatim>\<open>null\<close> does not settle it
  at all and ends in an exception; when it is the \<^verbatim>\<open>.catch\<close> handler that throws, as
  on a status 500 with a code that does not convert to a string, no handler is left and
  the promise of the caller stays pending.
\<close>

theorem classifier_can_leave_the_promise_unsettled:
  "settled (fst (handleResponse lg r q url)) \<le> 1
   \<and> settled (fst (handleResponse lg
         (Response \<lparr> status = 200, statusText = ''OK'', data = JNull \<rparr>) q url)) = 0
   \<and> snd (handleResponse lg
         (Response \<lparr> status = 200, statusText = ''OK'', data = JNull \<rparr>) q url)
       = Threw (TypeError ''Cannot read properties of undefined (reading 'code')'')
   \<and> settled (fst (then_catch lg
         (Failure \<lparr> err_name = ''AxiosError'',
                    err_message = ''Request failed with status code 500'',
                    err_response = Some \<lparr> status = 500, statusText = ''Internal Server Error'',
                      data = JObj [(''code'', JObj [(''toString'', JNum 1)])] \<rparr> \<rparr>) q url)) = 0
   \<and> snd (then_catch lg
         (Failure \<lparr> err_name = ''AxiosError'',
                    err_message = ''Request failed with status code 500'',
                    err_response = Some \<lparr> status = 500, statusText = ''Internal Server Error'',
                      data = JObj [(''code'', JObj [(''toString'', JNum 1)])] \<rparr> \<rparr>) q url)
       = Threw cannot_convert"
proof -
  have t: "then_catch lg
         (Failure \<lparr> err_name = ''AxiosError'',
                    err_message = ''Request failed with status code 500'',
                    err_response = Some \<lparr> status = 500, statusText = ''Internal Server Error'',
                      data = JObj [(''code'', JObj [(''toString'', JNum 1)])] \<rparr> \<rparr>) q url
       = ([ConsoleLog (JObj [(''code'', JObj [(''toString'', JNum 1)])])], Threw cannot_convert)"
    unfolding then_catch_def
    by (simp add: unconvertible_code_throws data_of_def)
  show ?thesis
  proof (intro conjI)
    show "settled (fst (handleResponse lg r q url)) \<le> 1"
      by (rule settled_at_most_once)
    show "settled (fst (handleResponse lg
           (Response \<lparr> status = 200, statusText = ''OK'', data = JNull \<rparr>) q url)) = 0"
      unfolding null_body_200_throws by (simp add: settled_def)
    show "snd (handleResponse lg
           (Response \<lparr> status = 200, statusText = ''OK'', data = JNull \<rparr>) q url)
         = Threw (TypeError ''Cannot read properties of undefined (reading 'code')'')"
      unfolding null_body_200_throws by simp
    show "settled (fst (then_catch lg
         (Failure \<lparr> err_name = ''AxiosError'',
                    err_message = ''Request failed with status code 500'',
                    err_response = Some \<lparr> status = 500, statusText = ''Internal Server Error'',
                      data = JObj [(''code'', JObj [(''toString'', JNum 1)])] \<rparr> \<rparr>) q url)) = 0"
      unfolding t by (simp add: settled_def)
    show "snd (then_catch lg
         (Failure \<lparr> err_name = ''AxiosError'',
                    err_message = ''Request failed with status code 500'',
                    err_response = Some \<lparr> status = 500, statusText = ''Internal Server Error'',
                      data = JObj [(''code'', JObj [(''toString'', JNum 1)])] \<rparr> \<rparr>) q url)
       = Threw cannot_convert"
      unfolding t by simp
  qed
qed

text \<open>
  Claim C7 has every exception of the classifier's processing caught, logged and turned
  into a rejection that carries the body. The exceptions of lines 64 and 70 are raised
  outside the \<^verbatim>\<open>try\<close>: nothing is logged through the logger and nothing is rejected.
\<close>

theorem exception_before_try_escapes:
  "handleResponse lg (Response \<lparr> status = 200, statusText = ''OK'', data = JNull \<rparr>) q url
     = ([], Threw (TypeError ''Cannot read properties of undefined (reading 'code')''))
   \<and> handleResponse lg
       (Failure \<lparr> err_name = ''AxiosError'',
                  err_message = ''Request failed with status code 500'',
                  err_response = Some \<lparr> status = 500, statusText = ''Internal Server Error'',
                    data = JObj [(''code'', JObj [(''toString'', JNum 1)])] \<rparr> \<rparr>) q url
     = ([ConsoleLog (JObj [(''code'', JObj [(''toString'', JNum 1)])])], Threw cannot_convert)"
proof
  show "handleResponse lg (Response \<lparr> status = 200, statusText = ''OK'', data = JNull \<rparr>) q url
     = ([], Threw (TypeError ''Cannot read properties of undefined (reading 'code')''))"
    by (rule null_body_200_throws)
  show "handleResponse lg
       (Failure \<lparr> err_name = ''AxiosError'',
                  err_message = ''Request failed with status code 500'',
                  err_response = Some \<lparr> status = 500, statusText = ''Internal Server Error'',
                    data = JObj [(''code'', JObj [(''toString'', JNum 1)])] \<rparr> \<rparr>) q url
     = ([ConsoleLog (JObj [(''code'', JObj [(''toString'', JNum 1)])])], Threw cannot_convert)"
    by (rule unconvertible_code_throws) (simp add: data_of_def)
qed

section \<open>Soft failure\<close>

text \<open>
  The soft-failure path in full. With status 200, a body that is there, a code other
  than 200 and \<^verbatim>\<open>"0"\<close>, code and message convertible to strings, and a logger that has
  \<^verbatim>\<open>log\<close>, the classifier resolves, after one line to \<^verbatim>\<open>log.log\<close>, with the body:
  when the body is an object or an array, with its property \<^verbatim>\<open>fameexErrorInfo\<close> set to
  \<^verbatim>\<open>`[${error.code}] ${trimAny(error.msg, ' .')}`\<close>; unchanged otherwise.
\<close>

lemma http200_with_error_code_resolves_annotated:
  assumes "httpCode_of r = Some 200"
    and "\<not> nullish (data_of r)"
    and "get_field (data_of r) ''code'' \<noteq> JNum 200"
    and "get_field (data_of r) ''code'' \<noteq> JStr ''0''"
    and "error_of (data_of r) = Inr error"
    and "String_msg (err_msg error) = Inr msg"
    and "has_log lg"
  shows "\<exists>code d'.
           ToString (err_code error) = Inr code
         \<and> set_fameexErrorInfo (data_of r) (''['' @ code @ ''] '' @ trimAny (err_msg error) '' .'')
             = Inr d'
         \<and> handleResponse lg r q url
             = ([ConsoleLog (data_of r),
                 LogLog (''FameEX processed a request to '' @ url @ '' with data ''
                         @ (if q \<noteq> [] then q else ''{ No parameters }'')
                         @ '', but with error: '' @ msg @ ''. Resolving'' @ ellipsis),
                 Resolve d'], Returned)
         \<and> (typeof_object (data_of r) \<longrightarrow>
                get_field d' ''fameexErrorInfo''
                  = JStr (''['' @ code @ ''] '' @ trimAny (err_msg error) '' .''))
         \<and> (\<not> typeof_object (data_of r) \<longrightarrow> d' = data_of r)"
proof -
  from error_of_code [OF assms(5)] obtain code where c: "ToString (err_code error) = Inr code" ..
  let ?info = "''['' @ code @ ''] '' @ trimAny (err_msg error) '' .''"
  from assms(2) obtain d' where s: "set_fameexErrorInfo (data_of r) ?info = Inr d'"
    by (cases "data_of r") (auto simp: nullish_def)
  have f: "typeof_object (data_of r) \<longrightarrow> get_field d' ''fameexErrorInfo'' = JStr ?info"
    using set_info_get_field [OF s, of "''fameexErrorInfo''"] by simp
  have g: "\<not> typeof_object (data_of r) \<longrightarrow> d' = data_of r"
    using s assms(2) by (cases "data_of r") (auto simp: nullish_def)
  from handleResponse_soft [OF assms(1-5) c assms(6) s assms(7), of q url] c s f g
  show ?thesis by blast
qed

section \<open>Failures\<close>

text \<open>
  Claim C6, as the code has it. An error without a response has no status and no body.
  The success test is false without reading the body, and when the logger of the module
  has \<^verbatim>\<open>warn\<close> the call returns after rejecting with \<^verbatim>\<open>String(responseOrError)\<close>.
\<close>

theorem transport_failure_rejects_with_rendering:
  assumes "err_response e = None" and "has_warn lg"
  shows "httpCode_of (Failure e) = None
       \<and> data_of (Failure e) = JUndefined
       \<and> success_of (httpCode_of (Failure e)) (data_of (Failure e)) = Inr False
       \<and> handleResponse lg (Failure e) q url
           = ([ConsoleLog JUndefined,
               LogWarn (''Request to '' @ url @ '' with data ''
                        @ (if q \<noteq> [] then q else ''{ No parameters }'')
                        @ '' failed. details: '' @ String_outcome (Failure e)
                        @ ''. Rejecting'' @ ellipsis),
               Reject (String_outcome (Failure e))], Returned)"
  using assms handleResponse_transport [OF assms, of q url]
  by (simp add: httpCode_of_def data_of_def success_of_other)

theorem transport_failure_rejects_with_rendering_witness:
  "handleResponse \<lparr> has_log = True, has_warn = True \<rparr>
     (Failure \<lparr> err_name = ''AxiosError'', err_message = ''timeout of 10000ms exceeded'',
                err_response = None \<rparr>)
     ''symbol=BTC-USDT'' ''https://api.fameex.com/v1/api/account/wallet''
   = ([ConsoleLog JUndefined,
       LogWarn (''Request to https://api.fameex.com/v1/api/account/wallet with data symbol=BTC-USDT''
                @ '' failed. details: AxiosError: timeout of 10000ms exceeded. Rejecting''
                @ ellipsis),
       Reject ''AxiosError: timeout of 10000ms exceeded''], Returned)"
  using transport_failure_rejects_with_rendering [of
      "\<lparr> err_name = ''AxiosError'', err_message = ''timeout of 10000ms exceeded'',
         err_response = None \<rparr>"
      "\<lparr> has_log = True, has_warn = True \<rparr>"
      "''symbol=BTC-USDT''" "''https://api.fameex.com/v1/api/account/wallet''"]
  by (simp add: String_outcome_def)

text \<open>The claim as it was stated asks nothing of the logger. The logger the module
  starts with, \<^verbatim>\<open>{}\<close>, has no \<^verbatim>\<open>warn\<close>: the call on a transport failure then throws
  from the \<^verbatim>\<open>try\<close> and again from the \<^verbatim>\<open>catch\<close>, and rejects nothing.\<close>

theorem transport_failure_without_logger_counterexample:
  "handleResponse (log initial_state)
     (Failure \<lparr> err_name = ''AxiosError'', err_message = ''timeout of 10000ms exceeded'',
                err_response = None \<rparr>)
     ''symbol=BTC-USDT'' ''https://api.fameex.com/v1/api/account/wallet''
   = ([ConsoleLog JUndefined], Threw (TypeError ''log.warn is not a function''))"
  by (simp add: handleResponse_def Let_def httpCode_of_def httpMessage_of_def data_of_def
      success_of_other error_of_undefined try_block_def initial_state_def)

text \<open>
  The rejection on a status other than 200 in full: with a status that is not 0, a body
  that is not \<^verbatim>\<open>null\<close>, a code that converts to a string and a logger that has
  \<^verbatim>\<open>warn\<close>, the classifier rejects with
  \<^verbatim>\<open>`${httpCode} ${httpMessage}, [${error.code}] ${trimAny(error.msg, ' .')}`\<close>, the
  normalised error being the one of lines 68 to 71.
\<close>

lemma non200_rejects_with_diagnostic:
  assumes "httpCode_of r = Some n" and "n \<noteq> 200" and "n \<noteq> 0"
    and "data_of r \<noteq> JNull"
    and "error_of (data_of r) = Inr error"
    and "has_warn lg"
  shows "\<exists>code key.
           ToString (err_code error) = Inr code
         \<and> handleResponse lg r q url
             = ([ConsoleLog (data_of r),
                 LogWarn (''Request to '' @ url @ '' with data ''
                          @ (if q \<noteq> [] then q else ''{ No parameters }'')
                          @ '' failed. details: ''
                          @ Number_toString n @ '' '' @ render (httpMessage_of r) @ '', ['' @ code
                          @ ''] '' @ trimAny (err_msg error) '' .''
                          @ ''. Rejecting'' @ ellipsis),
                 Reject (Number_toString n @ '' '' @ render (httpMessage_of r) @ '', ['' @ code
                         @ ''] '' @ trimAny (err_msg error) '' .'')], Returned)
         \<and> err_code error = coalesce (opt_field (data_of r) ''code'') (JStr ''No error code'')
         \<and> ToString (opt_field (data_of r) ''code'') = Inr key
         \<and> err_msg error
             = (case table_get key of
                  Some m \<Rightarrow> m
                | None \<Rightarrow> Val (coalesce (opt_field (data_of r) ''msg'') (JStr ''Unknown error'')))"
proof -
  from error_of_code [OF assms(5)] obtain code where c: "ToString (err_code error) = Inr code" ..
  from assms(5) obtain key where k: "ToString (opt_field (data_of r) ''code'') = Inr key"
    and e: "error = \<lparr> err_code = coalesce (opt_field (data_of r) ''code'') (JStr ''No error code''),
                      err_msg = (case table_get key of
                                   Some m \<Rightarrow> m
                                 | None \<Rightarrow> Val (coalesce (opt_field (data_of r) ''msg'') (JStr ''Unknown error''))) \<rparr>"
    by (auto simp: error_of_def split: sum.splits)
  from e have e1: "err_code error = coalesce (opt_field (data_of r) ''code'') (JStr ''No error code'')"
    and e2: "err_msg error
             = (case table_get key of
                  Some m \<Rightarrow> m
                | None \<Rightarrow> Val (coalesce (opt_field (data_of r) ''msg'') (JStr ''Unknown error'')))"
    by simp_all
  from handleResponse_reject [OF assms(1-5) c assms(6), of q url] c k e1 e2
  show ?thesis by blast
qed

lemma reject_example_401:
  "Reject ''401 Unauthorized, [112011] API request IP access is restricted (the bound IP is inconsistent with the request IP)''
     \<in> set (fst (handleResponse \<lparr> has_log = True, has_warn = True \<rparr>
         (Failure \<lparr> err_name = ''AxiosError'',
                    err_message = ''Request failed with status code 401'',
                    err_response = Some \<lparr> status = 401, statusText = ''Unauthorized'',
                      data = JObj [(''code'', JNum 112011), (''msg'', JStr ''ip restricted'')] \<rparr> \<rparr>)
         [] ''https://api.fameex.com/v1/api/account/wallet''))"
proof -
  let ?r = "Failure \<lparr> err_name = ''AxiosError'',
                err_message = ''Request failed with status code 401'',
                err_response = Some \<lparr> status = 401, statusText = ''Unauthorized'',
                  data = JObj [(''code'', JNum 112011), (''msg'', JStr ''ip restricted'')] \<rparr> \<rparr>"
  let ?e = "\<lparr> err_code = JNum 112011,
             err_msg = Val (JStr ''API request IP access is restricted (the bound IP is inconsistent with the request IP)'') \<rparr>"
  have d: "data_of ?r = JObj [(''code'', JNum 112011), (''msg'', JStr ''ip restricted'')]"
    by (simp add: data_of_def)
  have h: "httpCode_of ?r = Some 401" by (simp add: httpCode_of_def)
  have m: "httpMessage_of ?r = Some ''Unauthorized''" by (simp add: httpMessage_of_def)
  have e: "error_of (data_of ?r) = Inr ?e"
    unfolding d by (rule error_of_112011)
  have n: "data_of ?r \<noteq> JNull" by (simp add: d)
  from non200_rejects_with_diagnostic [OF h _ _ n e, of "\<lparr> has_log = True, has_warn = True \<rparr>"
      "[]" "''https://api.fameex.com/v1/api/account/wallet''"]
  obtain code where c: "ToString (err_code ?e) = Inr code"
    and hr: "handleResponse \<lparr> has_log = True, has_warn = True \<rparr> ?r []
               ''https://api.fameex.com/v1/api/account/wallet''
             = ([ConsoleLog (data_of ?r),
                 LogWarn (''Request to '' @ ''https://api.fameex.com/v1/api/account/wallet'' @ '' with data ''
                          @ (if [] \<noteq> ([]::string) then [] else ''{ No parameters }'')
                          @ '' failed. details: ''
                          @ Number_toString 401 @ '' '' @ render (httpMessage_of ?r) @ '', ['' @ code
                          @ ''] '' @ trimAny (err_msg ?e) '' .''
                          @ ''. Rejecting'' @ ellipsis),
                 Reject (Number_toString 401 @ '' '' @ render (httpMessage_of ?r) @ '', ['' @ code
                         @ ''] '' @ trimAny (err_msg ?e) '' .'')], Returned)"
    by auto
  from c have c': "code = ''112011''" by (simp add: Number_toString_112011)
  show ?thesis
    unfolding hr by (simp add: c' m render_def Number_toString_401 trimAny_ip)
qed

lemma trimAny_unknown: "trimAny (Val (JStr ''Unknown error'')) '' .'' = ''Unknown error''"
  by (simp add: trimAny_def)

lemma Number_toString_500: "Number_toString 500 = ''500''"
  by (simp add: Number_toString_def nat_digits_small nat_digits_large)

lemma error_of_empty_string:
  "error_of (JStr []) = Inr \<lparr> err_code = JStr ''No error code'', err_msg = Val (JStr ''Unknown error'') \<rparr>"
  by (simp add: error_of_def opt_field_def nullish_def coalesce_def table_get_undefined)

lemma table_get_constructor: "table_get ''constructor'' = Some (Inherited ''constructor'')"
  by code_simp

text \<open>A code that names a member of \<^verbatim>\<open>Object.prototype\<close> finds that member in the table
  of line 70, and \<^verbatim>\<open>body.msg\<close> is not looked at.\<close>

lemma error_of_constructor:
  "error_of (JObj [(''code'', JStr ''constructor''), (''msg'', JStr ''x'')])
     = Inr \<lparr> err_code = JStr ''constructor'', err_msg = Inherited ''constructor'' \<rparr>"
  by (simp add: error_of_def opt_field_def nullish_def coalesce_def table_get_constructor)

text \<open>
  Claim C5 has every outcome with a status other than 200 rejected with the text made
  of the status, the status text, the code and the message. The guard of line 83,
  \<^verbatim>\<open>typeof data === 'object'\<close>, lets the body \<^verbatim>\<open>null\<close> through, line 84 throws, and the
  rejection is the one of the \<^verbatim>\<open>catch\<close> block, without status and status text; the empty
  body next to it gets the text the claim describes.
\<close>

theorem null_body_is_rejected_without_the_status:
  "handleResponse \<lparr> has_log = True, has_warn = True \<rparr>
     (Failure \<lparr> err_name = ''AxiosError'',
                err_message = ''Request failed with status code 500'',
                err_response = Some \<lparr> status = 500, statusText = ''Internal Server Error'',
                  data = JNull \<rparr> \<rparr>) q url
   = ([ConsoleLog JNull,
       LogWarn (''Error while processing response of request to '' @ url
                @ '' with data '' @ (if q \<noteq> [] then q else ''{ No parameters }'')
                @ '': TypeError: Cannot set properties of null (setting 'fameexErrorInfo')''
                @ ''. Data object I've got: null.''),
       Reject ''Unable to process data: null. TypeError: Cannot set properties of null (setting 'fameexErrorInfo')''],
      Returned)
   \<and> handleResponse \<lparr> has_log = True, has_warn = True \<rparr>
     (Failure \<lparr> err_name = ''AxiosError'',
                err_message = ''Request failed with status code 500'',
                err_response = Some \<lparr> status = 500, statusText = ''Internal Server Error'',
                  data = JStr [] \<rparr> \<rparr>) q url
   = ([ConsoleLog (JStr []),
       LogWarn (''Request to '' @ url @ '' with data ''
                @ (if q \<noteq> [] then q else ''{ No parameters }'')
                @ '' failed. details: 500 Internal Server Error, [No error code] Unknown error''
                @ ''. Rejecting'' @ ellipsis),
       Reject ''500 Internal Server Error, [No error code] Unknown error''],
      Returned)"
proof
  show "handleResponse \<lparr> has_log = True, has_warn = True \<rparr>
     (Failure \<lparr> err_name = ''AxiosError'',
                err_message = ''Request failed with status code 500'',
                err_response = Some \<lparr> status = 500, statusText = ''Internal Server Error'',
                  data = JNull \<rparr> \<rparr>) q url
   = ([ConsoleLog JNull,
       LogWarn (''Error while processing response of request to '' @ url
                @ '' with data '' @ (if q \<noteq> [] then q else ''{ No parameters }'')
                @ '': TypeError: Cannot set properties of null (setting 'fameexErrorInfo')''
                @ ''. Data object I've got: null.''),
       Reject ''Unable to process data: null. TypeError: Cannot set properties of null (setting 'fameexErrorInfo')''],
      Returned)"
    by (rule handleResponse_null_body) (simp_all add: httpCode_of_def data_of_def)
  let ?r = "Failure \<lparr> err_name = ''AxiosError'',
                err_message = ''Request failed with status code 500'',
                err_response = Some \<lparr> status = 500, statusText = ''Internal Server Error'',
                  data = JStr [] \<rparr> \<rparr>"
  have d: "data_of ?r = JStr []" by (simp add: data_of_def)
  have h: "httpCode_of ?r = Some 500" by (simp add: httpCode_of_def)
  have m: "httpMessage_of ?r = Some ''Internal Server Error''" by (simp add: httpMessage_of_def)
  have e: "error_of (data_of ?r)
             = Inr \<lparr> err_code = JStr ''No error code'', err_msg = Val (JStr ''Unknown error'') \<rparr>"
    unfolding d by (rule error_of_empty_string)
  show "handleResponse \<lparr> has_log = True, has_warn = True \<rparr> ?r q url
   = ([ConsoleLog (JStr []),
       LogWarn (''Request to '' @ url @ '' with data ''
                @ (if q \<noteq> [] then q else ''{ No parameters }'')
                @ '' failed. details: 500 Internal Server Error, [No error code] Unknown error''
                @ ''. Rejecting'' @ ellipsis),
       Reject ''500 Internal Server Error, [No error code] Unknown error''],
      Returned)"
    by (subst handleResponse_reject [OF h _ _ _ e, where code = "''No error code''"])
       (simp_all add: d m Number_toString_500 trimAny_unknown render_def)
qed

section \<open>The annotated body\<close>

text \<open>
  Claim C10. When the classifier resolves on status 200 with a code other than 200 and
  \<^verbatim>\<open>"0"\<close>, the value it resolves with is the body with the property
  \<^verbatim>\<open>fameexErrorInfo\<close> set to a string (in place if it was there, at the end otherwise)
  and every other property as it was, when the body is an object or an array; it is the
  body itself when the body is a string, a number or a boolean.
\<close>

theorem soft_resolve_changes_one_field:
  assumes "httpCode_of r = Some 200"
    and "get_field (data_of r) ''code'' \<noteq> JNum 200"
    and "get_field (data_of r) ''code'' \<noteq> JStr ''0''"
    and "Resolve v \<in> set (fst (handleResponse lg r q url))"
  shows "(\<forall>ps. data_of r = JObj ps \<longrightarrow>
            (\<exists>info. v = JObj (AList.update ''fameexErrorInfo'' (JStr info) ps)))
       \<and> (\<forall>es ps. data_of r = JArr es ps \<longrightarrow>
            (\<exists>info. v = JArr es (AList.update ''fameexErrorInfo'' (JStr info) ps)))
       \<and> (typeof_object (data_of r) \<longrightarrow> (\<exists>info. get_field v ''fameexErrorInfo'' = JStr info))
       \<and> (\<forall>k. k \<noteq> ''fameexErrorInfo'' \<longrightarrow> get_field v k = get_field (data_of r) k)
       \<and> (\<not> typeof_object (data_of r) \<longrightarrow> v = data_of r)"
proof -
  from handleResponse_shape [of lg r q url] assms
  obtain info where s: "set_fameexErrorInfo (data_of r) info = Inr v"
    and n: "\<not> nullish (data_of r)"
    by (elim disjE exE conjE) auto
  from n have nn: "data_of r \<noteq> JNull" "data_of r \<noteq> JUndefined"
    by (auto simp: nullish_def)
  show ?thesis
  proof (intro conjI allI impI)
    fix ps assume "data_of r = JObj ps"
    with s show "\<exists>info. v = JObj (AList.update ''fameexErrorInfo'' (JStr info) ps)" by auto
  next
    fix es ps assume "data_of r = JArr es ps"
    with s show "\<exists>info. v = JArr es (AList.update ''fameexErrorInfo'' (JStr info) ps)" by auto
  next
    assume "typeof_object (data_of r)"
    with set_info_get_field [OF s, of "''fameexErrorInfo''"]
    show "\<exists>info. get_field v ''fameexErrorInfo'' = JStr info" by simp
  next
    fix k :: string assume "k \<noteq> ''fameexErrorInfo''"
    with set_info_get_field [OF s, of k] show "get_field v k = get_field (data_of r) k" by simp
  next
    assume "\<not> typeof_object (data_of r)"
    with s nn show "v = data_of r" by (cases "data_of r") auto
  qed
qed

theorem soft_resolve_changes_one_field_witness:
  "Resolve (JObj [(''code'', JNum 112015), (''msg'', JStr ''bad sig''),
                  (''fameexErrorInfo'', JStr ''[112015] Signature error'')])
     \<in> set (fst (handleResponse \<lparr> has_log = True, has_warn = True \<rparr>
         (Response \<lparr> status = 200, statusText = ''OK'',
                     data = JObj [(''code'', JNum 112015), (''msg'', JStr ''bad sig'')] \<rparr>)
         [] ''https://api.fameex.com/v1/api/spot/orders''))
   \<and> get_field (JObj [(''code'', JNum 112015), (''msg'', JStr ''bad sig''),
                       (''fameexErrorInfo'', JStr ''[112015] Signature error'')]) ''msg''
       = JStr ''bad sig''
   \<and> get_field (JObj [(''code'', JNum 112015), (''msg'', JStr ''bad sig''),
                       (''fameexErrorInfo'', JStr ''[112015] Signature error'')]) ''code''
       = JNum 112015"
proof -
  let ?r = "Response \<lparr> status = 200, statusText = ''OK'',
                     data = JObj [(''code'', JNum 112015), (''msg'', JStr ''bad sig'')] \<rparr>"
  let ?v = "JObj [(''code'', JNum 112015), (''msg'', JStr ''bad sig''),
                  (''fameexErrorInfo'', JStr ''[112015] Signature error'')]"
  have d: "data_of ?r = JObj [(''code'', JNum 112015), (''msg'', JStr ''bad sig'')]"
    by (simp add: data_of_def coalesce_def nullish_def)
  have h: "httpCode_of ?r = Some 200" by (simp add: httpCode_of_def)
  have c: "get_field (data_of ?r) ''code'' \<noteq> JNum 200" "get_field (data_of ?r) ''code'' \<noteq> JStr ''0''"
    by (simp_all add: d)
  have res: "Resolve ?v \<in> set (fst (handleResponse \<lparr> has_log = True, has_warn = True \<rparr> ?r
                [] ''https://api.fameex.com/v1/api/spot/orders''))"
    by (simp add: soft_example)
  from soft_resolve_changes_one_field [OF h c res]
  have a: "\<forall>k. k \<noteq> ''fameexErrorInfo'' \<longrightarrow> get_field ?v k = get_field (data_of ?r) k"
    by blast
  have k1: "''msg'' \<noteq> ''fameexErrorInfo''" and k2: "''code'' \<noteq> ''fameexErrorInfo''"
    by simp_all
  have "get_field ?v ''msg'' = get_field (data_of ?r) ''msg''"
    using a [rule_format, OF k1] .
  moreover have "get_field ?v ''code'' = get_field (data_of ?r) ''code''"
    using a [rule_format, OF k2] .
  ultimately show ?thesis using res by (simp add: d)
qed

end
